theory Spec2Isabelle
  imports Complex_Main "HOL-Library.AList"
begin

section \<open>Python values, exceptions and dictionaries\<close>

text \<open>
  Every \<open>raise\<close> of the source is a value of \<open>error\<close>; a function that can raise
  returns \<open>error + 'a\<close> with \<open>Inl\<close> for the exception. \<open>ValueError\<close> is what the
  registry raises for a duplicate function name, \<open>NotImplementedError\<close> what
  \<open>send_message\<close> raises for streaming with automatic function calling, and
  \<open>BrokenResponseError\<close> what the \<open>history\<close> property raises after a broken turn.
  \<open>IncompleteIterationError\<close> is what reading the candidates of a streamed response
  raises while the stream has not been consumed, \<open>OverflowError\<close> what \<open>float(n)\<close>
  raises for an integer beyond the range of a double. \<open>StopIteration\<close> is what a
  scripted model-call collaborator raises once its script is used up.
\<close>

datatype error =
    TypeError | KeyError | ValueError | IndexError | AttributeError | AssertionError
  | OverflowError | NotImplementedError | StopIteration
  | BlockedPromptException | StopCandidateException | BrokenResponseError
  | IncompleteIterationError
  | ApiError string

text \<open>
  Python values: what a callable returns, what a schema is made of, and what a protobuf
  \<open>Struct\<close> (call arguments, function responses) holds. \<open>VInt\<close> is a Python \<open>int\<close>,
  unbounded; \<open>VFloat\<close> is a Python \<open>float\<close>, a finite double given by its exact value
  (a rational that is no double stands for no Python value; infinities and NaN are
  left out). A \<open>Struct\<close> has no integers: its numbers are doubles.
\<close>

type_synonym double = rat

datatype pyval =
    VNone | VBool bool | VInt int | VFloat double | VStr string
  | VList "pyval list" | VDict "(string \<times> pyval) list"

text \<open>
  A \<open>dict\<close> with string keys is an association list in insertion order:
  \<open>map_of\<close> reads a key, \<open>AList.update\<close> is \<open>d[k] = v\<close> (in place for a
  present key, appended for a new one) and \<open>AList.delete\<close> removes a key.
\<close>

type_synonym 'v pydict = "(string \<times> 'v) list"
type_synonym bytes = "nat list"

definition dict_has :: "'v pydict \<Rightarrow> string \<Rightarrow> bool" where
  "dict_has d k = (map_of d k \<noteq> None)"

definition dict_update_all :: "'v pydict \<Rightarrow> 'v pydict \<Rightarrow> 'v pydict" where
  "dict_update_all d e = foldl (\<lambda>acc (k, v). AList.update k v acc) d e"

text \<open>The comprehension \<open>[f(x) for x in xs]\<close>: the first exception ends it.\<close>

fun try_map :: "('a \<Rightarrow> error + 'b) \<Rightarrow> 'a list \<Rightarrow> error + 'b list" where
  "try_map f [] = Inr []"
| "try_map f (x # xs) =
     (case f x of
        Inl e \<Rightarrow> Inl e
      | Inr y \<Rightarrow> (case try_map f xs of Inl e \<Rightarrow> Inl e | Inr ys \<Rightarrow> Inr (y # ys)))"

text \<open>
  \<open>float(n)\<close> for an integer \<open>n\<close>: the nearest double, ties to the even mantissa;
  a double has 53 significant bits and is below \<open>2 ^ 1024\<close>. \<open>bit_length\<close> is
  \<open>int.bit_length\<close>.
\<close>

fun bit_length :: "nat \<Rightarrow> nat" where
  "bit_length n = (if n = 0 then 0 else Suc (bit_length (n div 2)))"

definition round_53 :: "nat \<Rightarrow> nat" where
  "round_53 a =
     (let b = bit_length a in
      if b \<le> 53 then a
      else
        (let e = b - 53;
             q = a div 2 ^ e;
             r = a mod 2 ^ e;
             half = 2 ^ (e - 1);
             q = (if half < r \<or> (r = half \<and> odd q) then q + 1 else q)
         in q * 2 ^ e))"

definition float_of_int :: "int \<Rightarrow> error + double" where
  "float_of_int n =
     (let a = round_53 (nat \<bar>n\<bar>) in
      if 2 ^ 1024 \<le> a then Inl OverflowError
      else Inr (of_int (if n < 0 then - int a else int a)))"

text \<open>
  What the service library stores when a Python value is assigned to a \<open>Struct\<close>
  field (\<open>glm.FunctionResponse(name=..., response=result)\<close>): \<open>None\<close>, booleans,
  strings and floats are kept, an integer becomes \<open>float(n)\<close>, lists and dictionaries
  are converted element by element.
\<close>

fun struct_value :: "pyval \<Rightarrow> error + pyval"
  and struct_values :: "pyval list \<Rightarrow> error + pyval list"
  and struct_fields :: "(string \<times> pyval) list \<Rightarrow> error + (string \<times> pyval) list"
where
  "struct_value VNone = Inr VNone"
| "struct_value (VBool b) = Inr (VBool b)"
| "struct_value (VInt n) = (case float_of_int n of Inl e \<Rightarrow> Inl e | Inr x \<Rightarrow> Inr (VFloat x))"
| "struct_value (VFloat x) = Inr (VFloat x)"
| "struct_value (VStr s) = Inr (VStr s)"
| "struct_value (VList vs) =
     (case struct_values vs of Inl e \<Rightarrow> Inl e | Inr ws \<Rightarrow> Inr (VList ws))"
| "struct_value (VDict d) =
     (case struct_fields d of Inl e \<Rightarrow> Inl e | Inr fs \<Rightarrow> Inr (VDict fs))"
| "struct_values [] = Inr []"
| "struct_values (v # vs) =
     (case struct_value v of
        Inl e \<Rightarrow> Inl e
      | Inr w \<Rightarrow> (case struct_values vs of Inl e \<Rightarrow> Inl e | Inr ws \<Rightarrow> Inr (w # ws)))"
| "struct_fields [] = Inr []"
| "struct_fields (kv # kvs) =
     (case struct_value (snd kv) of
        Inl e \<Rightarrow> Inl e
      | Inr w \<Rightarrow>
          (case struct_fields kvs of Inl e \<Rightarrow> Inl e | Inr fs \<Rightarrow> Inr ((fst kv, w) # fs)))"

text \<open>\<open>str.upper\<close> and \<open>str.lower\<close> on ASCII letters.\<close>

definition upper_char :: "char \<Rightarrow> char" where
  "upper_char c =
     (case map_of (zip ''abcdefghijklmnopqrstuvwxyz'' ''ABCDEFGHIJKLMNOPQRSTUVWXYZ'') c of
        None \<Rightarrow> c | Some u \<Rightarrow> u)"

definition lower_char :: "char \<Rightarrow> char" where
  "lower_char c =
     (case map_of (zip ''ABCDEFGHIJKLMNOPQRSTUVWXYZ'' ''abcdefghijklmnopqrstuvwxyz'') c of
        None \<Rightarrow> c | Some l \<Rightarrow> l)"

definition upper :: "string \<Rightarrow> string" where
  "upper s = map upper_char s"

definition lower :: "string \<Rightarrow> string" where
  "lower s = map lower_char s"

section \<open>The messages of the service (glm)\<close>

record blob =
  mime_type :: string
  data :: bytes

record file_data =
  fd_mime_type :: string
  file_uri :: string

record glm_file =
  f_mime_type :: string
  uri :: string

text \<open>
  \<open>args\<close> of a \<open>glm.FunctionCall\<close> is a \<open>Struct\<close> field: it is \<open>None\<close> as long as
  it was never set, which is not the same as set to an empty \<open>Struct\<close>.
\<close>

record function_call =
  fc_name :: string
  args :: "pyval pydict option"

record function_response =
  fr_name :: string
  response :: "pyval pydict"

text \<open>
  \<open>glm.Part\<close> is a oneof: at most one variant is set. \<open>Part_unset\<close> is \<open>glm.Part()\<close>.
\<close>

datatype part =
    Part_unset
  | Part_text string
  | Part_inline_data blob
  | Part_function_call function_call
  | Part_function_response function_response
  | Part_file_data file_data

record content =
  role :: string
  parts :: "part list"

text \<open>
  The truth value of a message (\<open>if part\<close>, \<open>if not content\<close>): a message is true
  when one of its fields is set to a true value. An empty string, an empty byte string,
  an empty \<open>Struct\<close> and an empty list of parts are false.
\<close>

definition blob_bool :: "blob \<Rightarrow> bool" where
  "blob_bool b = (mime_type b \<noteq> [] \<or> data b \<noteq> [])"

definition file_data_bool :: "file_data \<Rightarrow> bool" where
  "file_data_bool f = (fd_mime_type f \<noteq> [] \<or> file_uri f \<noteq> [])"

definition function_call_bool :: "function_call \<Rightarrow> bool" where
  "function_call_bool fc =
     (fc_name fc \<noteq> [] \<or> (case args fc of None \<Rightarrow> False | Some a \<Rightarrow> a \<noteq> []))"

definition function_response_bool :: "function_response \<Rightarrow> bool" where
  "function_response_bool fr = (fr_name fr \<noteq> [] \<or> response fr \<noteq> [])"

fun part_bool :: "part \<Rightarrow> bool" where
  "part_bool Part_unset = False"
| "part_bool (Part_text s) = (s \<noteq> [])"
| "part_bool (Part_inline_data b) = blob_bool b"
| "part_bool (Part_function_call fc) = function_call_bool fc"
| "part_bool (Part_function_response fr) = function_response_bool fr"
| "part_bool (Part_file_data f) = file_data_bool f"

definition content_bool :: "content \<Rightarrow> bool" where
  "content_bool c = (role c \<noteq> [] \<or> parts c \<noteq> [])"

section \<open>The inputs of the coercers\<close>

text \<open>
  The values a caller can hand to \<open>to_blob\<close>, \<open>to_part\<close>, \<open>to_content\<close> and
  \<open>to_contents\<close>. \<open>PyPILImage png enc\<close> is a \<open>PIL.Image.Image\<close>: \<open>png\<close> says
  whether it is a \<open>PngImageFile\<close> and \<open>enc\<close> is what \<open>img.save\<close> writes in the
  format \<open>pil_to_blob\<close> chooses. \<open>PyIPythonImage name guess dat\<close> is an
  \<open>IPython.display.Image\<close> with its \<open>filename\<close>, what \<open>mimetypes.guess_type\<close>
  answers for that name, and its \<open>data\<close>. Both image libraries are taken as installed.
  \<open>PyInt\<close>, \<open>PyFloat\<close> and \<open>PyBool\<close> stand for the objects no coercer accepts.
  \<open>PyList\<close> is a list or a tuple, which can be iterated again and again;
  \<open>PyIterator xs\<close> is a one-shot iterator (a generator, \<open>iter(...)\<close>, \<open>map(...)\<close>)
  that still has the elements \<open>xs\<close> to give: what a loop has taken from it is gone.
\<close>

datatype pyobj =
    PyNone
  | PyBool bool
  | PyInt int
  | PyFloat double
  | PyStr string
  | PyBytes bytes
  | PyList "pyobj list"
  | PyIterator "pyobj list"
  | PyDict "(string \<times> pyobj) list"
  | PyBlob blob
  | PyFileData file_data
  | PyFile glm_file
  | PyFunctionCall function_call
  | PyFunctionResponse function_response
  | PyPart part
  | PyContent content
  | PyPILImage bool bytes
  | PyIPythonImage "string option" "string option" bytes

text \<open>
  Truth value of an object (\<open>if not content\<close>). \<open>PyFile\<close> is a
  \<open>file_types.File\<close> or a \<open>glm.File\<close> with a name, which is true; an iterator
  object is true whatever it still holds.
\<close>

fun truthy :: "pyobj \<Rightarrow> bool" where
  "truthy PyNone = False"
| "truthy (PyBool b) = b"
| "truthy (PyInt i) = (i \<noteq> 0)"
| "truthy (PyFloat x) = (x \<noteq> 0)"
| "truthy (PyStr s) = (s \<noteq> [])"
| "truthy (PyBytes b) = (b \<noteq> [])"
| "truthy (PyList xs) = (xs \<noteq> [])"
| "truthy (PyIterator xs) = True"
| "truthy (PyDict d) = (d \<noteq> [])"
| "truthy (PyBlob b) = blob_bool b"
| "truthy (PyFileData f) = file_data_bool f"
| "truthy (PyFile f) = True"
| "truthy (PyFunctionCall fc) = function_call_bool fc"
| "truthy (PyFunctionResponse fr) = function_response_bool fr"
| "truthy (PyPart p) = part_bool p"
| "truthy (PyContent c) = content_bool c"
| "truthy (PyPILImage png enc) = True"
| "truthy (PyIPythonImage name guess dat) = True"

section \<open>Content, part and blob coercion (content_types.py)\<close>

subsection \<open>Message constructors of the service library\<close>

text \<open>
  \<open>glm.Blob(d)\<close>, \<open>glm.FileData(d)\<close>, \<open>glm.File(d)\<close>, \<open>glm.FunctionCall(d)\<close>,
  \<open>glm.FunctionResponse(d)\<close> and \<open>glm.Content(d)\<close> build a message from a
  dictionary. They belong to the service's protobuf library, not to this repository: a
  key that is no field of the message is a \<open>ValueError\<close>, a value of the wrong type a
  \<open>TypeError\<close>, an absent field takes its default, and a field given as \<open>None\<close>
  counts as absent.
\<close>

definition str_field :: "pyobj pydict \<Rightarrow> string \<Rightarrow> error + string" where
  "str_field d k =
     (case map_of d k of
        None \<Rightarrow> Inr []
      | Some PyNone \<Rightarrow> Inr []
      | Some (PyStr s) \<Rightarrow> Inr s
      | Some _ \<Rightarrow> Inl TypeError)"

definition known_keys :: "pyobj pydict \<Rightarrow> string list \<Rightarrow> bool" where
  "known_keys d ks = list_all (\<lambda>k. k \<in> set ks) (map fst d)"

text \<open>
  A \<open>str\<close> given for a \<open>bytes\<close> field is taken as base64 text: the library pads it
  with \<open>4 - len(s) % 4\<close> signs \<open>=\<close> and decodes it with
  \<open>base64.urlsafe_b64decode\<close>. \<open>a2b_base64 s q l p out\<close> is the decoder's loop:
  \<open>q\<close> is the position in the current group of four digits, \<open>l\<close> the bits left
  over from the last digit, \<open>p\<close> the padding signs seen since the last digit. A
  character that is no digit is skipped; a group left open at the end is a
  \<open>binascii.Error\<close>, which is a \<open>ValueError\<close>.
\<close>

definition b64_digit :: "char \<Rightarrow> nat option" where
  "b64_digit c =
     map_of
       (zip ''ABCDEFGHIJKLMNOPQRSTUVWXYZabcdefghijklmnopqrstuvwxyz0123456789+/'' [0..<64])
       (if c = CHR ''-'' then CHR ''+'' else if c = CHR ''_'' then CHR ''/'' else c)"

fun a2b_base64 :: "string \<Rightarrow> nat \<Rightarrow> nat \<Rightarrow> nat \<Rightarrow> bytes \<Rightarrow> error + bytes" where
  "a2b_base64 [] q l p out = (if q = 0 then Inr out else Inl ValueError)"
| "a2b_base64 (c # cs) q l p out =
     (if c = CHR ''='' then
        (if 2 \<le> q \<and> 4 \<le> q + (p + 1) then Inr out
         else a2b_base64 cs q l (if 2 \<le> q then p + 1 else p) out)
      else
        (case b64_digit c of
           None \<Rightarrow> a2b_base64 cs q l p out
         | Some d \<Rightarrow>
             (if q = 0 then a2b_base64 cs 1 d 0 out
              else if q = 1 then a2b_base64 cs 2 (d mod 16) 0 (out @ [l * 4 + d div 16])
              else if q = 2 then a2b_base64 cs 3 (d mod 4) 0 (out @ [l * 16 + d div 4])
              else a2b_base64 cs 0 0 0 (out @ [l * 64 + d]))))"

definition bytes_of_str :: "string \<Rightarrow> error + bytes" where
  "bytes_of_str s = a2b_base64 (s @ replicate (4 - length s mod 4) CHR ''='') 0 0 0 []"

text \<open>
  The library converts the values of a dictionary key by key, and there a bad base64
  text is refused; the types of the converted values are checked afterwards.
\<close>

definition glm_Blob :: "pyobj pydict \<Rightarrow> error + blob" where
  "glm_Blob d =
     (if \<not> known_keys d [''mime_type'', ''data''] then Inl ValueError
      else case (case map_of d ''data'' of
                   Some (PyStr s) \<Rightarrow> map_sum id PyBytes (bytes_of_str s)
                 | Some v \<Rightarrow> Inr v
                 | None \<Rightarrow> Inr PyNone) of
        Inl e \<Rightarrow> Inl e
      | Inr v \<Rightarrow>
          (case str_field d ''mime_type'' of
             Inl e \<Rightarrow> Inl e
           | Inr m \<Rightarrow>
               (case v of
                  PyNone \<Rightarrow> Inr \<lparr>mime_type = m, data = []\<rparr>
                | PyBytes b \<Rightarrow> Inr \<lparr>mime_type = m, data = b\<rparr>
                | _ \<Rightarrow> Inl TypeError)))"

definition glm_FileData :: "pyobj pydict \<Rightarrow> error + file_data" where
  "glm_FileData d =
     (if \<not> known_keys d [''mime_type'', ''file_uri''] then Inl ValueError
      else case str_field d ''mime_type'' of
        Inl e \<Rightarrow> Inl e
      | Inr m \<Rightarrow>
          (case str_field d ''file_uri'' of
             Inl e \<Rightarrow> Inl e
           | Inr u \<Rightarrow> Inr \<lparr>fd_mime_type = m, file_uri = u\<rparr>))"

definition glm_File :: "pyobj pydict \<Rightarrow> error + glm_file" where
  "glm_File d =
     (if \<not> known_keys d [''name'', ''display_name'', ''mime_type'', ''size_bytes'',
            ''create_time'', ''update_time'', ''expiration_time'', ''sha256_hash'', ''uri'']
      then Inl ValueError
      else case str_field d ''mime_type'' of
        Inl e \<Rightarrow> Inl e
      | Inr m \<Rightarrow>
          (case str_field d ''uri'' of
             Inl e \<Rightarrow> Inl e
           | Inr u \<Rightarrow> Inr \<lparr>f_mime_type = m, uri = u\<rparr>))"

text \<open>The values a protobuf \<open>Struct\<close> takes: \<open>None\<close>, booleans, numbers (stored
  as doubles), strings, lists and dictionaries of them.\<close>

fun to_value :: "pyobj \<Rightarrow> error + pyval"
  and to_values :: "pyobj list \<Rightarrow> error + pyval list"
  and to_fields :: "(string \<times> pyobj) list \<Rightarrow> error + (string \<times> pyval) list"
where
  "to_value PyNone = Inr VNone"
| "to_value (PyBool b) = Inr (VBool b)"
| "to_value (PyInt i) = (case float_of_int i of Inl e \<Rightarrow> Inl e | Inr x \<Rightarrow> Inr (VFloat x))"
| "to_value (PyFloat x) = Inr (VFloat x)"
| "to_value (PyStr s) = Inr (VStr s)"
| "to_value (PyList xs) = (case to_values xs of Inl e \<Rightarrow> Inl e | Inr vs \<Rightarrow> Inr (VList vs))"
| "to_value (PyDict d) = (case to_fields d of Inl e \<Rightarrow> Inl e | Inr fs \<Rightarrow> Inr (VDict fs))"
| "to_value (PyBytes v) = Inl TypeError"
| "to_value (PyIterator xs) = Inl TypeError"
| "to_value (PyBlob v) = Inl TypeError"
| "to_value (PyFileData v) = Inl TypeError"
| "to_value (PyFile v) = Inl TypeError"
| "to_value (PyFunctionCall v) = Inl TypeError"
| "to_value (PyFunctionResponse v) = Inl TypeError"
| "to_value (PyPart v) = Inl TypeError"
| "to_value (PyContent v) = Inl TypeError"
| "to_value (PyPILImage png enc) = Inl TypeError"
| "to_value (PyIPythonImage name guess dat) = Inl TypeError"
| "to_values [] = Inr []"
| "to_values (x # xs) =
     (case to_value x of
        Inl e \<Rightarrow> Inl e
      | Inr v \<Rightarrow> (case to_values xs of Inl e \<Rightarrow> Inl e | Inr vs \<Rightarrow> Inr (v # vs)))"
| "to_fields [] = Inr []"
| "to_fields (kv # kvs) =
     (case to_value (snd kv) of
        Inl e \<Rightarrow> Inl e
      | Inr v \<Rightarrow> (case to_fields kvs of Inl e \<Rightarrow> Inl e | Inr fs \<Rightarrow> Inr ((fst kv, v) # fs)))"

definition struct_field :: "pyobj pydict \<Rightarrow> string \<Rightarrow> error + pyval pydict option" where
  "struct_field d k =
     (case map_of d k of
        None \<Rightarrow> Inr None
      | Some PyNone \<Rightarrow> Inr None
      | Some (PyDict s) \<Rightarrow> map_sum id Some (to_fields s)
      | Some _ \<Rightarrow> Inl TypeError)"

definition glm_FunctionCall :: "pyobj pydict \<Rightarrow> error + function_call" where
  "glm_FunctionCall d =
     (if \<not> known_keys d [''name'', ''args''] then Inl ValueError
      else case str_field d ''name'' of
        Inl e \<Rightarrow> Inl e
      | Inr n \<Rightarrow>
          (case struct_field d ''args'' of
             Inl e \<Rightarrow> Inl e
           | Inr a \<Rightarrow> Inr \<lparr>fc_name = n, args = a\<rparr>))"

definition glm_FunctionResponse :: "pyobj pydict \<Rightarrow> error + function_response" where
  "glm_FunctionResponse d =
     (if \<not> known_keys d [''name'', ''response''] then Inl ValueError
      else case str_field d ''name'' of
        Inl e \<Rightarrow> Inl e
      | Inr n \<Rightarrow>
          (case struct_field d ''response'' of
             Inl e \<Rightarrow> Inl e
           | Inr r \<Rightarrow>
               Inr \<lparr>fr_name = n, response = (case r of None \<Rightarrow> [] | Some fs \<Rightarrow> fs)\<rparr>))"

text \<open>\<open>glm.Content(content)\<close> once \<open>content["parts"]\<close> holds the converted parts
  \<open>ps\<close>: the other keys of the dictionary are checked, \<open>role\<close> is read.\<close>

definition glm_Content :: "pyobj pydict \<Rightarrow> part list \<Rightarrow> error + content" where
  "glm_Content d ps =
     (if \<not> known_keys d [''parts'', ''role''] then Inl ValueError
      else case str_field d ''role'' of
        Inl e \<Rightarrow> Inl e
      | Inr r \<Rightarrow> Inr \<lparr>role = r, parts = ps\<rparr>)"

text \<open>\<open>glm.Part(part)\<close> for the keys whose value \<open>_convert_dict\<close> leaves as it is;
  with the value \<open>None\<close> the field counts as not given and the part stays unset.\<close>

definition glm_Part :: "string \<Rightarrow> pyobj \<Rightarrow> error + part" where
  "glm_Part k v =
     (if k \<notin> set [''text'', ''function_call'', ''function_response''] then Inl ValueError
      else if v = PyNone then Inr Part_unset
      else if k = ''text'' then
        (case v of PyStr s \<Rightarrow> Inr (Part_text s) | _ \<Rightarrow> Inl TypeError)
      else if k = ''function_call'' then
        (case v of
           PyFunctionCall fc \<Rightarrow> Inr (Part_function_call fc)
         | PyDict d \<Rightarrow>
             (case glm_FunctionCall d of Inl e \<Rightarrow> Inl e | Inr fc \<Rightarrow> Inr (Part_function_call fc))
         | _ \<Rightarrow> Inl TypeError)
      else if k = ''function_response'' then
        (case v of
           PyFunctionResponse fr \<Rightarrow> Inr (Part_function_response fr)
         | PyDict d \<Rightarrow>
             (case glm_FunctionResponse d of
                Inl e \<Rightarrow> Inl e
              | Inr fr \<Rightarrow> Inr (Part_function_response fr))
         | _ \<Rightarrow> Inl TypeError)
      else Inl ValueError)"

subsection \<open>Images\<close>

definition pil_to_blob :: "bool \<Rightarrow> bytes \<Rightarrow> blob" where
  "pil_to_blob png enc =
     (if png then \<lparr>mime_type = ''image/png'', data = enc\<rparr>
      else \<lparr>mime_type = ''image/jpeg'', data = enc\<rparr>)"

fun image_to_blob :: "pyobj \<Rightarrow> error + blob" where
  "image_to_blob (PyPILImage png enc) = Inr (pil_to_blob png enc)"
| "image_to_blob (PyIPythonImage name guess dat) =
     (case name of
        None \<Rightarrow> Inl ValueError
      | Some n \<Rightarrow>
          Inr \<lparr>mime_type = (case guess of None \<Rightarrow> ''image/unknown'' | Some m \<Rightarrow> m),
               data = dat\<rparr>)"
| "image_to_blob other = Inl TypeError"

subsection \<open>Shape sniffing\<close>

definition is_content_dict :: "pyobj pydict \<Rightarrow> bool" where
  "is_content_dict d = dict_has d ''parts''"

definition is_part_dict :: "pyobj pydict \<Rightarrow> bool" where
  "is_part_dict d =
     (let keys = map fst d in
      if length keys \<noteq> 1 then False
      else hd keys \<in> set [''text'', ''inline_data'', ''function_call'',
                          ''function_response'', ''file_data''])"

definition is_blob_dict :: "pyobj pydict \<Rightarrow> bool" where
  "is_blob_dict d = (dict_has d ''mime_type'' \<and> dict_has d ''data'')"

fun is_mapping :: "pyobj \<Rightarrow> bool" where
  "is_mapping (PyDict d) = True"
| "is_mapping other = False"

subsection \<open>The coercers\<close>

definition to_file_data :: "pyobj \<Rightarrow> error + file_data" where
  "to_file_data x =
     (case (case x of
              PyDict d \<Rightarrow>
                (if dict_has d ''file_uri'' then map_sum id PyFileData (glm_FileData d)
                 else map_sum id PyFile (glm_File d))
            | _ \<Rightarrow> Inr x) of
        Inl e \<Rightarrow> Inl e
      | Inr y \<Rightarrow>
          (case (case y of
                   PyFile f \<Rightarrow> PyFileData \<lparr>fd_mime_type = f_mime_type f, file_uri = uri f\<rparr>
                 | _ \<Rightarrow> y) of
             PyFileData fd \<Rightarrow> Inr fd
           | _ \<Rightarrow> Inl TypeError))"

text \<open>
  The elements \<open>_convert_dict\<close> walks for \<open>content["parts"]\<close>: a string is wrapped
  into a one-element list first; a list gives its elements, an iterator what it still
  holds, a dictionary its keys, a byte string its integers; nothing else can be
  iterated.
\<close>

fun parts_of :: "pyobj \<Rightarrow> error + pyobj list" where
  "parts_of (PyStr s) = Inr [PyStr s]"
| "parts_of (PyList xs) = Inr xs"
| "parts_of (PyIterator xs) = Inr xs"
| "parts_of (PyDict d) = Inr (map (\<lambda>kv. PyStr (fst kv)) d)"
| "parts_of (PyBytes bs) = Inr (map PyInt (map int bs))"
| "parts_of other = Inl TypeError"

text \<open>The size that decreases along the calls of the coercers.\<close>

fun osize :: "pyobj \<Rightarrow> nat" where
  "osize (PyList xs) = Suc (sum_list (map osize xs) + length xs)"
| "osize (PyIterator xs) = Suc (sum_list (map osize xs) + length xs)"
| "osize (PyDict d) = Suc (sum_list (map (\<lambda>kv. osize (snd kv)) d) + 2 * length d)"
| "osize (PyBytes bs) = length bs"
| "osize other = 0"

definition lsize :: "pyobj list \<Rightarrow> nat" where
  "lsize xs = sum_list (map osize xs) + length xs"

text \<open>
  \<open>to_blob\<close> and \<open>to_part\<close> first replace a mapping by what \<open>_convert_dict\<close>
  makes of it, then go through their \<open>isinstance\<close> chain: \<open>to_blob_tail\<close> and
  \<open>to_part_tail\<close> are those chains. In \<open>to_part\<close> the second test for
  \<open>glm.FunctionCall\<close> can never be reached, so a \<open>glm.FunctionResponse\<close> goes to the
  last branch, \<open>to_blob\<close>; what reaches that branch is never a mapping, so it is
  \<open>to_blob_tail\<close> there.
\<close>

fun to_blob_tail :: "pyobj \<Rightarrow> error + blob" where
  "to_blob_tail (PyBlob b) = Inr b"
| "to_blob_tail (PyPILImage png enc) = image_to_blob (PyPILImage png enc)"
| "to_blob_tail (PyIPythonImage name guess dat) = image_to_blob (PyIPythonImage name guess dat)"
| "to_blob_tail (PyDict d) = Inl KeyError"
| "to_blob_tail other = Inl TypeError"

fun to_part_tail :: "pyobj \<Rightarrow> error + part" where
  "to_part_tail (PyPart p) = Inr p"
| "to_part_tail (PyStr s) = Inr (Part_text s)"
| "to_part_tail (PyFileData fd) = Inr (Part_file_data fd)"
| "to_part_tail (PyFile f) = map_sum id Part_file_data (to_file_data (PyFile f))"
| "to_part_tail (PyFunctionCall fc) = Inr (Part_function_call fc)"
| "to_part_tail other = map_sum id Part_inline_data (to_blob_tail other)"

lemma osize_map_of:
  "map_of d k = Some v \<Longrightarrow>
   osize v + 2 \<le> sum_list (map (\<lambda>kv. osize (snd kv)) d) + 2 * length d"
  by (induction d) (auto split: if_splits)

lemma lsize_parts_of: "parts_of v = Inr xs \<Longrightarrow> lsize xs \<le> Suc (osize v)"
  by (cases v) (auto simp: lsize_def comp_def)

function convert_dict :: "pyobj pydict \<Rightarrow> error + pyobj"
  and to_blob :: "pyobj \<Rightarrow> error + blob"
  and to_part :: "pyobj \<Rightarrow> error + part"
  and to_parts :: "pyobj list \<Rightarrow> error + part list"
where
  "convert_dict d =
     (if is_content_dict d then
        (case map_of d ''parts'' of
           None \<Rightarrow> Inl KeyError
         | Some v \<Rightarrow>
             (case parts_of v of
                Inl e \<Rightarrow> Inl e
              | Inr xs \<Rightarrow>
                  (case to_parts xs of
                     Inl e \<Rightarrow> Inl e
                   | Inr ps \<Rightarrow> map_sum id PyContent (glm_Content d ps))))
      else if is_part_dict d then
        (case d of
           [] \<Rightarrow> Inl KeyError
         | kv # rest \<Rightarrow>
             (if fst kv = ''inline_data'' then
                (case to_blob (snd kv) of
                   Inl e \<Rightarrow> Inl e
                 | Inr b \<Rightarrow> Inr (PyPart (Part_inline_data b)))
              else if fst kv = ''file_data'' then
                (case to_file_data (snd kv) of
                   Inl e \<Rightarrow> Inl e
                 | Inr fd \<Rightarrow> Inr (PyPart (Part_file_data fd)))
              else map_sum id PyPart (glm_Part (fst kv) (snd kv))))
      else if is_blob_dict d then map_sum id PyBlob (glm_Blob d)
      else Inl KeyError)"
| "to_blob x =
     (case (case x of PyDict d \<Rightarrow> convert_dict d | _ \<Rightarrow> Inr x) of
        Inl e \<Rightarrow> Inl e
      | Inr y \<Rightarrow> to_blob_tail y)"
| "to_part x =
     (case (case x of PyDict d \<Rightarrow> convert_dict d | _ \<Rightarrow> Inr x) of
        Inl e \<Rightarrow> Inl e
      | Inr y \<Rightarrow> to_part_tail y)"
| "to_parts [] = Inr []"
| "to_parts (x # xs) =
     (case to_part x of
        Inl e \<Rightarrow> Inl e
      | Inr p \<Rightarrow> (case to_parts xs of Inl e \<Rightarrow> Inl e | Inr ps \<Rightarrow> Inr (p # ps)))"
  by pat_completeness auto

termination
  apply (relation "measure (\<lambda>a. case a of
      Inl (Inl d) \<Rightarrow> 3 * osize (PyDict d)
    | Inl (Inr x) \<Rightarrow> 3 * osize x + 1
    | Inr (Inl x) \<Rightarrow> 3 * osize x + 2
    | Inr (Inr xs) \<Rightarrow> 3 * lsize xs + 2)")
  apply simp
  subgoal for d v xs
    using osize_map_of[of d "''parts''" v] lsize_parts_of[of v xs] by simp
  subgoal for d kv rest by (cases kv) simp
  subgoal by simp
  subgoal by simp
  subgoal by (simp add: lsize_def)
  subgoal by (simp add: lsize_def)
  done

text \<open>What \<open>isinstance(x, Iterable) and not isinstance(x, str)\<close> lets through, with
  the elements the iteration gives.\<close>

fun iter_not_str :: "pyobj \<Rightarrow> pyobj list option" where
  "iter_not_str (PyList xs) = Some xs"
| "iter_not_str (PyIterator xs) = Some xs"
| "iter_not_str (PyDict d) = Some (map (\<lambda>kv. PyStr (fst kv)) d)"
| "iter_not_str (PyBytes bs) = Some (map PyInt (map int bs))"
| "iter_not_str other = None"

definition to_content :: "pyobj \<Rightarrow> error + content" where
  "to_content x =
     (if \<not> truthy x then Inl ValueError
      else case (case x of PyDict d \<Rightarrow> convert_dict d | _ \<Rightarrow> Inr x) of
        Inl e \<Rightarrow> Inl e
      | Inr y \<Rightarrow>
          (case y of
             PyContent c \<Rightarrow> Inr c
           | _ \<Rightarrow>
               (case iter_not_str y of
                  Some xs \<Rightarrow>
                    (case to_parts xs of
                       Inl e \<Rightarrow> Inl e
                     | Inr ps \<Rightarrow> Inr \<lparr>role = [], parts = ps\<rparr>)
                | None \<Rightarrow>
                    (case to_part y of
                       Inl e \<Rightarrow> Inl e
                     | Inr p \<Rightarrow> Inr \<lparr>role = [], parts = [p]\<rparr>))))"

definition strict_to_content :: "pyobj \<Rightarrow> error + content" where
  "strict_to_content x =
     (case (case x of PyDict d \<Rightarrow> convert_dict d | _ \<Rightarrow> Inr x) of
        Inl e \<Rightarrow> Inl e
      | Inr y \<Rightarrow> (case y of PyContent c \<Rightarrow> Inr c | _ \<Rightarrow> Inl TypeError))"

text \<open>
  \<open>[to_content(contents)]\<close>, the last two lines of \<open>to_contents\<close>: the whole
  input as one message.
\<close>

definition single_content :: "pyobj \<Rightarrow> error + content list" where
  "single_content x = map_sum id (\<lambda>c. [c]) (to_content x)"

text \<open>
  What an interrupted comprehension leaves of its input: a list is what it was, a
  one-shot iterator has lost every element up to and including the one on which the
  body raised.
\<close>

fun rest_after_error :: "('a \<Rightarrow> error + 'b) \<Rightarrow> 'a list \<Rightarrow> 'a list" where
  "rest_after_error f [] = []"
| "rest_after_error f (x # xs) =
     (case f x of Inl e \<Rightarrow> xs | Inr y \<Rightarrow> rest_after_error f xs)"

fun after_pass :: "(pyobj \<Rightarrow> error + 'b) \<Rightarrow> pyobj \<Rightarrow> pyobj" where
  "after_pass f (PyIterator xs) = PyIterator (rest_after_error f xs)"
| "after_pass f other = other"

text \<open>
  \<open>to_contents\<close>: for an iterable that is neither a string nor a mapping, every
  element goes through \<open>strict_to_content\<close>; only a \<open>TypeError\<close> of that pass is
  caught, and then (as for every other input) the input goes to \<open>to_content\<close>, in the
  state the pass left it in.
\<close>

definition to_contents :: "pyobj \<Rightarrow> error + content list" where
  "to_contents x =
     (if x = PyNone then Inr []
      else case (if is_mapping x then None else iter_not_str x) of
        None \<Rightarrow> single_content x
      | Some xs \<Rightarrow>
          (case try_map strict_to_content xs of
             Inr cs \<Rightarrow> Inr cs
           | Inl e \<Rightarrow>
               (if e = TypeError then single_content (after_pass strict_to_content x)
                else Inl e)))"

text \<open>
  The strict per-element check in the specification's words: a canonical \<open>Content\<close>
  or a dictionary with a \<open>parts\<close> key.
\<close>

fun strict_shape :: "pyobj \<Rightarrow> bool" where
  "strict_shape (PyContent c) = True"
| "strict_shape (PyDict d) = is_content_dict d"
| "strict_shape other = False"

section \<open>Schema synthesis (content_types.py)\<close>

text \<open>
  What \<open>inspect.signature\<close> tells about a callable: for each parameter its kind, its
  annotation (\<open>Ann_empty\<close> when there is none; \<open>Optional[X]\<close> is
  \<open>Ann_Union [X, Ann_NoneType]\<close>) and its default value (\<open>None\<close> for
  \<open>Parameter.empty\<close>). A callable without a signature has \<open>fn_signature = None\<close>.
  \<open>fn_call\<close> is the callable applied to keyword arguments.
\<close>

datatype param_kind =
  POSITIONAL_ONLY | POSITIONAL_OR_KEYWORD | VAR_POSITIONAL | KEYWORD_ONLY | VAR_KEYWORD

datatype annotation =
    Ann_empty | Ann_Any | Ann_NoneType | Ann_int | Ann_float | Ann_str | Ann_bool
  | Ann_list annotation | Ann_dict | Ann_Union "annotation list"

record parameter =
  p_kind :: param_kind
  p_annotation :: annotation
  p_default :: "pyval option"

type_synonym kwargs = "pyval pydict"
type_synonym py_callable = "kwargs \<Rightarrow> error + pyval"

record py_function =
  fn_name :: string
  fn_doc :: "string option"
  fn_signature :: "(string \<times> parameter) list option"
  fn_call :: py_callable

text \<open>
  \<open>pydantic.create_model(f.__name__, **fields_dict).schema()\<close> is the work of the
  pydantic library: it is a parameter \<open>pyd\<close> of the synthesizer, from the model name
  and the fields (name, annotation, description) to the schema dictionary.
\<close>

type_synonym pydantic =
  "string \<Rightarrow> (string \<times> annotation \<times> string option) list \<Rightarrow> error + pyval pydict"

record schema =
  s_name :: string
  s_description :: "string option"
  s_parameters :: "pyval pydict"

definition fixed_kind :: "param_kind \<Rightarrow> bool" where
  "fixed_kind k = (k \<in> set [POSITIONAL_OR_KEYWORD, KEYWORD_ONLY, POSITIONAL_ONLY])"

definition is_nullable :: "annotation \<Rightarrow> bool" where
  "is_nullable a = (case a of Ann_Union as \<Rightarrow> Ann_NoneType \<in> set as | _ \<Rightarrow> False)"

text \<open>The body of the loop over \<open>parameters["properties"]\<close>: drop the title, mark a
  nullable argument.\<close>

definition postprocess_arg ::
  "(string \<times> parameter) list \<Rightarrow> string \<times> pyval \<Rightarrow> error + string \<times> pyval" where
  "postprocess_arg defaults arg =
     (case snd arg of
        VDict function_arg \<Rightarrow>
          (let function_arg = AList.delete ''title'' function_arg in
           case map_of defaults (fst arg) of
             None \<Rightarrow> Inl KeyError
           | Some param \<Rightarrow>
               Inr (fst arg,
                    VDict (if is_nullable (p_annotation param)
                           then AList.update ''nullable'' (VBool True) function_arg
                           else function_arg)))
      | _ \<Rightarrow> Inl AttributeError)"

text \<open>\<open>_generate_schema\<close>. An absent \<open>required\<close> becomes the empty list first, and
  the test \<open>if required:\<close> then asks whether the list is non-empty.\<close>

definition generate_schema ::
  "pydantic \<Rightarrow> py_function \<Rightarrow> string pydict option \<Rightarrow> string list option \<Rightarrow> error + schema"
where
  "generate_schema pyd f descriptions required =
     (let descriptions = (case descriptions of None \<Rightarrow> [] | Some d \<Rightarrow> d);
          required = (case required of None \<Rightarrow> [] | Some r \<Rightarrow> r)
      in case fn_signature f of
        None \<Rightarrow> Inl ValueError
      | Some defaults \<Rightarrow>
          (let fields_dict =
                 map (\<lambda>np. (fst np,
                             (if p_annotation (snd np) \<noteq> Ann_empty then p_annotation (snd np)
                              else Ann_Any),
                             map_of descriptions (fst np)))
                   (filter (\<lambda>np. fixed_kind (p_kind (snd np))) defaults)
           in case pyd (fn_name f) fields_dict of
             Inl e \<Rightarrow> Inl e
           | Inr parameters \<Rightarrow>
               (let parameters = AList.delete ''title'' parameters
                in case (case map_of parameters ''properties'' of
                           None \<Rightarrow> Inr parameters
                         | Some (VDict props) \<Rightarrow>
                             (case try_map (postprocess_arg defaults) props of
                                Inl e \<Rightarrow> Inl e
                              | Inr props' \<Rightarrow>
                                  Inr (AList.update ''properties'' (VDict props') parameters))
                         | Some _ \<Rightarrow> Inl AttributeError) of
                  Inl e \<Rightarrow> Inl e
                | Inr parameters \<Rightarrow>
                    (let parameters =
                           (if required \<noteq> [] then
                              AList.update ''required'' (VList (map VStr required)) parameters
                            else
                              AList.update ''required''
                                (VList (map VStr
                                   (map fst
                                      (filter (\<lambda>kp. p_default (snd kp) = None \<and>
                                                      fixed_kind (p_kind (snd kp)))
                                         defaults))))
                                parameters)
                     in Inr \<lparr>s_name = fn_name f, s_description = fn_doc f,
                             s_parameters = parameters\<rparr>))))"

text \<open>
  \<open>_rename_schema_fields\<close>, in the order of the source: \<open>type\<close> is popped and
  stored upper-cased as \<open>type_\<close>, \<open>format\<close> is popped and stored as \<open>format_\<close>,
  \<open>items\<close> is renamed recursively, and so is every value of \<open>properties\<close>.
\<close>

lemma size_map_of_pyval:
  "map_of d k = Some v \<Longrightarrow> size v < Suc (size_list (size_prod (\<lambda>_. 0) size) d)"
  by (induction d) (auto split: if_splits)

definition pop_type :: "pyval pydict \<Rightarrow> error + pyval pydict" where
  "pop_type schema =
     (let ty = map_of schema ''type''; schema = AList.delete ''type'' schema
      in case ty of
        None \<Rightarrow> Inr schema
      | Some VNone \<Rightarrow> Inr schema
      | Some (VStr t) \<Rightarrow> Inr (AList.update ''type_'' (VStr (upper t)) schema)
      | Some _ \<Rightarrow> Inl AttributeError)"

definition pop_format :: "pyval pydict \<Rightarrow> pyval pydict" where
  "pop_format schema =
     (let fmt = map_of schema ''format''; schema = AList.delete ''format'' schema
      in case fmt of
        None \<Rightarrow> schema
      | Some VNone \<Rightarrow> schema
      | Some f \<Rightarrow> AList.update ''format_'' f schema)"

lemma map_of_pop_type:
  "pop_type d = Inr b \<Longrightarrow> k \<noteq> ''type'' \<Longrightarrow> k \<noteq> ''type_'' \<Longrightarrow> map_of b k = map_of d k"
  by (auto simp: pop_type_def Let_def update_conv' delete_conv'
      split: option.splits pyval.splits)

lemma map_of_pop_format:
  "k \<noteq> ''format'' \<Longrightarrow> k \<noteq> ''format_'' \<Longrightarrow> map_of (pop_format b) k = map_of b k"
  by (auto simp: pop_format_def Let_def update_conv' delete_conv'
      split: option.splits pyval.splits)

function rename_schema_fields :: "pyval \<Rightarrow> error + pyval"
  and rename_properties :: "pyval pydict \<Rightarrow> error + pyval pydict"
where
  "rename_schema_fields VNone = Inr VNone"
| "rename_schema_fields (VBool b) = Inl AttributeError"
| "rename_schema_fields (VInt i) = Inl AttributeError"
| "rename_schema_fields (VFloat x) = Inl AttributeError"
| "rename_schema_fields (VStr s) = Inl AttributeError"
| "rename_schema_fields (VList xs) = Inl TypeError"
| "rename_schema_fields (VDict d) =
     (case pop_type d of
        Inl e \<Rightarrow> Inl e
      | Inr schema \<Rightarrow>
          (let schema = pop_format schema;
               items = map_of schema ''items'';
               schema = AList.delete ''items'' schema
           in case (case items of
                      None \<Rightarrow> Inr schema
                    | Some i \<Rightarrow>
                        (if i = VNone then Inr schema
                         else case rename_schema_fields i of
                           Inl e \<Rightarrow> Inl e
                         | Inr i' \<Rightarrow> Inr (AList.update ''items'' i' schema))) of
             Inl e \<Rightarrow> Inl e
           | Inr schema \<Rightarrow>
               (let properties = map_of schema ''properties'';
                    schema = AList.delete ''properties'' schema
                in case properties of
                  None \<Rightarrow> Inr (VDict schema)
                | Some VNone \<Rightarrow> Inr (VDict schema)
                | Some (VDict ps) \<Rightarrow>
                    (case rename_properties ps of
                       Inl e \<Rightarrow> Inl e
                     | Inr ps' \<Rightarrow> Inr (VDict (AList.update ''properties'' (VDict ps') schema)))
                | Some _ \<Rightarrow> Inl AttributeError)))"
| "rename_properties [] = Inr []"
| "rename_properties (kv # kvs) =
     (case rename_schema_fields (snd kv) of
        Inl e \<Rightarrow> Inl e
      | Inr v \<Rightarrow>
          (case rename_properties kvs of
             Inl e \<Rightarrow> Inl e
           | Inr kvs' \<Rightarrow> Inr ((fst kv, v) # kvs')))"
  by pat_completeness auto
termination
  apply (relation "measure (\<lambda>a. case a of
      Inl v \<Rightarrow> size v
    | Inr d \<Rightarrow> size_list (size_prod (\<lambda>_. 0) size) d)")
  apply simp_all
  subgoal for d b x xa xb x2
    using size_map_of_pyval[of d "''items''" x2]
    by (simp add: map_of_pop_format map_of_pop_type)
  subgoal for d b x xa xb ba xc xd x2 x6
    using size_map_of_pyval[of d "''properties''" "VDict x6"]
    by (auto simp: map_of_pop_format map_of_pop_type update_conv' delete_conv'
        split: option.splits if_splits sum.splits)
  subgoal for kv kvs by (cases kv) simp
  done


text \<open>
  A stand-in for pydantic on parameters annotated \<open>int\<close>, \<open>str\<close>, \<open>float\<close> or
  \<open>bool\<close>, for concrete inputs: an object schema with one titled, typed property per
  field.
\<close>

definition pydantic_type :: "annotation \<Rightarrow> pyval pydict" where
  "pydantic_type a =
     (if a = Ann_int then [(''type'', VStr ''integer'')]
      else if a = Ann_str then [(''type'', VStr ''string'')]
      else if a = Ann_float then [(''type'', VStr ''number'')]
      else if a = Ann_bool then [(''type'', VStr ''boolean'')]
      else [])"

definition pydantic_stub :: pydantic where
  "pydantic_stub n fs =
     Inr [(''title'', VStr n), (''type'', VStr ''object''),
          (''properties'',
           VDict (map (\<lambda>f. (fst f,
                     VDict ((''title'', VStr (upper (fst f))) #
                            (case snd (snd f) of None \<Rightarrow> [] | Some d \<Rightarrow> [(''description'', VStr d)]) @
                            pydantic_type (fst (snd f))))) fs)),
          (''required'', VList (map (\<lambda>f. VStr (fst f)) fs))]"

text \<open>The callable \<open>def f(a: int, b: str = "x")\<close>.\<close>

definition f_a_b :: py_function where
  "f_a_b =
     \<lparr>fn_name = ''f'', fn_doc = None,
      fn_signature =
        Some [(''a'', \<lparr>p_kind = POSITIONAL_OR_KEYWORD, p_annotation = Ann_int, p_default = None\<rparr>),
              (''b'', \<lparr>p_kind = POSITIONAL_OR_KEYWORD, p_annotation = Ann_str,
                       p_default = Some (VStr ''x'')\<rparr>)],
      fn_call = (\<lambda>kw. Inr VNone)\<rparr>"

section \<open>Function declarations, tools and the function library (content_types.py)\<close>

text \<open>
  \<open>fproto\<close> is \<open>glm.FunctionDeclaration\<close>. A declaration of the registry is that
  message itself, a \<open>FunctionDeclaration\<close> wrapping it, or a
  \<open>CallableFunctionDeclaration\<close>, which also holds the callable; only the last is
  callable.
\<close>

record fproto =
  decl_name :: string
  decl_description :: string
  decl_parameters :: pyval

datatype fdecl =
    GlmFunctionDeclaration fproto
  | FunctionDeclaration fproto
  | CallableFunctionDeclaration fproto py_callable

fun to_proto :: "fdecl \<Rightarrow> fproto" where
  "to_proto (GlmFunctionDeclaration p) = p"
| "to_proto (FunctionDeclaration p) = p"
| "to_proto (CallableFunctionDeclaration p f) = p"

definition name :: "fdecl \<Rightarrow> string" where
  "name d = decl_name (to_proto d)"

fun is_callable :: "fdecl \<Rightarrow> bool" where
  "is_callable (CallableFunctionDeclaration p f) = True"
| "is_callable other = False"

definition FunctionDeclaration_init :: "string \<Rightarrow> string option \<Rightarrow> pyval \<Rightarrow> error + fproto" where
  "FunctionDeclaration_init n description parameters =
     (case rename_schema_fields parameters of
        Inl e \<Rightarrow> Inl e
      | Inr p \<Rightarrow>
          Inr \<lparr>decl_name = n,
               decl_description = (case description of None \<Rightarrow> [] | Some s \<Rightarrow> s),
               decl_parameters = p\<rparr>)"

definition CallableFunctionDeclaration_init ::
  "string \<Rightarrow> string option \<Rightarrow> pyval \<Rightarrow> py_callable \<Rightarrow> error + fdecl" where
  "CallableFunctionDeclaration_init n description parameters function =
     (case FunctionDeclaration_init n description parameters of
        Inl e \<Rightarrow> Inl e
      | Inr p \<Rightarrow> Inr (CallableFunctionDeclaration p function))"

definition from_function :: "pydantic \<Rightarrow> py_function \<Rightarrow> string pydict option \<Rightarrow> error + fdecl" where
  "from_function pyd function descriptions =
     (let descriptions = (case descriptions of None \<Rightarrow> [] | Some d \<Rightarrow> d)
      in case generate_schema pyd function (Some descriptions) None of
        Inl e \<Rightarrow> Inl e
      | Inr schema \<Rightarrow>
          CallableFunctionDeclaration_init (s_name schema) (s_description schema)
            (VDict (s_parameters schema)) (fn_call function))"

text \<open>
  \<open>self.function(**fc.args)\<close>: the keyword arguments are the call's \<open>args\<close>. When
  \<open>args\<close> was never set, \<open>fc.args\<close> is \<open>None\<close> and \<open>**None\<close> is a \<open>TypeError\<close>,
  raised before the callable runs.
\<close>

definition call_function :: "py_callable \<Rightarrow> function_call \<Rightarrow> error + pyval" where
  "call_function function fc =
     (case args fc of None \<Rightarrow> Inl TypeError | Some kw \<Rightarrow> function kw)"

text \<open>
  \<open>CallableFunctionDeclaration.__call__\<close>: the result, wrapped if it is no
  dictionary, is stored in the \<open>response\<close> field of a \<open>glm.FunctionResponse\<close>,
  which is a \<open>Struct\<close>.
\<close>

definition CallableFunctionDeclaration_call ::
  "py_callable \<Rightarrow> function_call \<Rightarrow> error + function_response" where
  "CallableFunctionDeclaration_call function fc =
     (case call_function function fc of
        Inl e \<Rightarrow> Inl e
      | Inr result \<Rightarrow>
          (let result = (case result of VDict d \<Rightarrow> d | _ \<Rightarrow> [(''result'', result)])
           in case struct_fields result of
             Inl e \<Rightarrow> Inl e
           | Inr r \<Rightarrow> Inr \<lparr>fr_name = fc_name fc, response = r\<rparr>))"

text \<open>
  The inputs of \<open>_make_function_declaration\<close>: a declaration, a dictionary (its
  \<open>name\<close>, \<open>description\<close>, \<open>parameters\<close> and \<open>function\<close> entries, each present
  or not), a callable, or anything else.
\<close>

datatype fd_in =
    Fd_declaration fdecl
  | Fd_dict "string option" "string option" "pyval option" "py_callable option"
  | Fd_callable py_function
  | Fd_other

fun make_function_declaration :: "pydantic \<Rightarrow> fd_in \<Rightarrow> error + fdecl" where
  "make_function_declaration pyd (Fd_declaration d) = Inr d"
| "make_function_declaration pyd (Fd_dict n description parameters function) =
     (case (n, description) of
        (Some n', Some d') \<Rightarrow>
          (let parameters = (case parameters of None \<Rightarrow> VNone | Some p \<Rightarrow> p)
           in case function of
             Some f \<Rightarrow> CallableFunctionDeclaration_init n' (Some d') parameters f
           | None \<Rightarrow> map_sum id FunctionDeclaration (FunctionDeclaration_init n' (Some d') parameters))
      | _ \<Rightarrow> Inl TypeError)"
| "make_function_declaration pyd (Fd_callable f) = from_function pyd f None"
| "make_function_declaration pyd Fd_other = Inl TypeError"

record tool =
  function_declarations :: "fdecl list"
  tool_index :: "fdecl pydict"

fun index_declarations :: "fdecl list \<Rightarrow> fdecl pydict \<Rightarrow> error + fdecl pydict" where
  "index_declarations [] idx = Inr idx"
| "index_declarations (fd # fds) idx =
     (if dict_has idx (name fd) then Inl ValueError
      else index_declarations fds (AList.update (name fd) fd idx))"

definition Tool_init :: "pydantic \<Rightarrow> fd_in list \<Rightarrow> error + tool" where
  "Tool_init pyd fds =
     (case try_map (make_function_declaration pyd) fds of
        Inl e \<Rightarrow> Inl e
      | Inr ds \<Rightarrow>
          (case index_declarations ds [] of
             Inl e \<Rightarrow> Inl e
           | Inr idx \<Rightarrow> Inr \<lparr>function_declarations = ds, tool_index = idx\<rparr>))"

definition Tool_to_proto :: "tool \<Rightarrow> fproto list" where
  "Tool_to_proto t = map to_proto (function_declarations t)"

text \<open>
  The inputs of \<open>_make_tool\<close>: a \<open>Tool\<close>, a \<open>glm.Tool\<close>, a dictionary with
  \<open>function_declarations\<close>, a dictionary that describes one declaration, an iterable
  of declarations, or a single declaration.
\<close>

datatype tool_in =
    Ti_Tool tool
  | Ti_glm_Tool "fproto list"
  | Ti_dict "fd_in list"
  | Ti_fd_dict fproto
  | Ti_iterable "fd_in list"
  | Ti_other fd_in

fun make_tool :: "pydantic \<Rightarrow> tool_in \<Rightarrow> error + tool" where
  "make_tool pyd (Ti_Tool t) = Inr t"
| "make_tool pyd (Ti_glm_Tool ps) = Tool_init pyd (map (\<lambda>p. Fd_declaration (GlmFunctionDeclaration p)) ps)"
| "make_tool pyd (Ti_dict fds) = Tool_init pyd fds"
| "make_tool pyd (Ti_fd_dict p) = Tool_init pyd [Fd_declaration (GlmFunctionDeclaration p)]"
| "make_tool pyd (Ti_iterable fds) = Tool_init pyd fds"
| "make_tool pyd (Ti_other x) =
     (case Tool_init pyd [x] of Inl e \<Rightarrow> Inl TypeError | Inr t \<Rightarrow> Inr t)"

datatype tools_in = Ts_iterable "tool_in list" | Ts_single tool_in

fun make_tools :: "pydantic \<Rightarrow> tools_in \<Rightarrow> error + tool list" where
  "make_tools pyd (Ts_iterable ts) =
     (case try_map (make_tool pyd) ts of
        Inl e \<Rightarrow> Inl e
      | Inr tools \<Rightarrow>
          (if length tools > 1 \<and> list_all (\<lambda>t. length (function_declarations t) = 1) tools
           then
             (case make_tool pyd
                     (Ti_iterable (map (\<lambda>t. Fd_declaration (hd (function_declarations t))) tools)) of
                Inl e \<Rightarrow> Inl e
              | Inr t \<Rightarrow> Inr [t])
           else Inr tools))"
| "make_tools pyd (Ts_single t) =
     (case make_tool pyd t of Inl e \<Rightarrow> Inl e | Inr t' \<Rightarrow> Inr [t'])"

record function_library =
  lib_tools :: "tool list"
  lib_index :: "fdecl pydict"

fun index_tools :: "tool list \<Rightarrow> fdecl pydict \<Rightarrow> error + fdecl pydict" where
  "index_tools [] idx = Inr idx"
| "index_tools (t # ts) idx =
     (case index_declarations (function_declarations t) idx of
        Inl e \<Rightarrow> Inl e
      | Inr idx' \<Rightarrow> index_tools ts idx')"

definition FunctionLibrary_init :: "pydantic \<Rightarrow> tools_in \<Rightarrow> error + function_library" where
  "FunctionLibrary_init pyd tools =
     (case make_tools pyd tools of
        Inl e \<Rightarrow> Inl e
      | Inr ts \<Rightarrow>
          (case index_tools ts [] of
             Inl e \<Rightarrow> Inl e
           | Inr idx \<Rightarrow> Inr \<lparr>lib_tools = ts, lib_index = idx\<rparr>))"

definition FunctionLibrary_getitem ::
  "function_library \<Rightarrow> string + function_call \<Rightarrow> error + fdecl" where
  "FunctionLibrary_getitem lib key =
     (let n = (case key of Inl s \<Rightarrow> s | Inr fc \<Rightarrow> fc_name fc)
      in case map_of (lib_index lib) n of None \<Rightarrow> Inl KeyError | Some d \<Rightarrow> Inr d)"

text \<open>
  A callable is a function of its keyword arguments in this model; that it was invoked
  is recorded in a log of (declaration name, arguments), one entry per invocation.
\<close>

type_synonym call_log = "(string \<times> kwargs) list"

definition log_call :: "string \<Rightarrow> function_call \<Rightarrow> call_log \<Rightarrow> call_log" where
  "log_call n fc lg = (case args fc of None \<Rightarrow> lg | Some kw \<Rightarrow> lg @ [(n, kw)])"

definition FunctionLibrary_call ::
  "function_library \<Rightarrow> function_call \<Rightarrow> call_log \<Rightarrow> (error + part option) \<times> call_log" where
  "FunctionLibrary_call lib fc lg =
     (case FunctionLibrary_getitem lib (Inr fc) of
        Inl e \<Rightarrow> (Inl e, lg)
      | Inr decl \<Rightarrow>
          (case decl of
             CallableFunctionDeclaration p function \<Rightarrow>
               (case CallableFunctionDeclaration_call function fc of
                  Inl e \<Rightarrow> (Inl e, log_call (decl_name p) fc lg)
                | Inr fr \<Rightarrow>
                    (Inr (Some (Part_function_response fr)), log_call (decl_name p) fc lg))
           | _ \<Rightarrow> (Inr None, lg)))"

definition FunctionLibrary_to_proto :: "function_library \<Rightarrow> fproto list list" where
  "FunctionLibrary_to_proto lib = map Tool_to_proto (lib_tools lib)"

datatype library_in = Li_library function_library | Li_tools tools_in

definition to_function_library :: "pydantic \<Rightarrow> library_in option \<Rightarrow> error + function_library option" where
  "to_function_library pyd lib =
     (case lib of
        None \<Rightarrow> Inr None
      | Some (Li_library l) \<Rightarrow> Inr (Some l)
      | Some (Li_tools ts) \<Rightarrow> map_sum id Some (FunctionLibrary_init pyd ts))"

section \<open>Tool configuration (content_types.py)\<close>

text \<open>
  \<open>to_function_calling_mode\<close> looks a lower-cased string, an integer or a mode up in
  the table \<open>_FUNCTION_CALLING_MODE\<close>. In \<open>fcc_in\<close> and \<open>tool_config_in\<close> a
  message and a dictionary that its constructor accepts are the same input.
\<close>

datatype fc_mode = MODE_UNSPECIFIED | AUTO | ANY | NONE

record function_calling_config =
  mode :: fc_mode
  allowed_function_names :: "string list"

record tool_config =
  function_calling_config :: function_calling_config

datatype mode_in = Mode_enum fc_mode | Mode_str string | Mode_int int

fun FUNCTION_CALLING_MODE :: "mode_in \<Rightarrow> fc_mode option" where
  "FUNCTION_CALLING_MODE (Mode_int i) =
     (if i = 1 then Some AUTO else if i = 2 then Some ANY else if i = 3 then Some NONE else None)"
| "FUNCTION_CALLING_MODE (Mode_enum m) =
     (if m = MODE_UNSPECIFIED then None else Some m)"
| "FUNCTION_CALLING_MODE (Mode_str s) =
     (if s = ''mode_auto'' \<or> s = ''auto'' then Some AUTO
      else if s = ''mode_any'' \<or> s = ''any'' then Some ANY
      else if s = ''mode_none'' \<or> s = ''none'' then Some NONE
      else None)"

definition to_function_calling_mode :: "mode_in \<Rightarrow> error + fc_mode" where
  "to_function_calling_mode x =
     (let x = (case x of Mode_str s \<Rightarrow> Mode_str (lower s) | _ \<Rightarrow> x)
      in case FUNCTION_CALLING_MODE x of None \<Rightarrow> Inl KeyError | Some m \<Rightarrow> Inr m)"

datatype fcc_in = Fcc_mode mode_in | Fcc_config function_calling_config

definition to_function_calling_config :: "fcc_in \<Rightarrow> error + function_calling_config" where
  "to_function_calling_config obj =
     (case obj of
        Fcc_mode m \<Rightarrow>
          (case to_function_calling_mode m of
             Inl e \<Rightarrow> Inl e
           | Inr md \<Rightarrow> Inr \<lparr>mode = md, allowed_function_names = []\<rparr>)
      | Fcc_config c \<Rightarrow> Inr c)"

datatype tool_config_in = Tc_ToolConfig tool_config | Tc_dict "fcc_in option" | Tc_other

definition to_tool_config :: "tool_config_in \<Rightarrow> error + tool_config" where
  "to_tool_config obj =
     (case obj of
        Tc_ToolConfig c \<Rightarrow> Inr c
      | Tc_dict None \<Rightarrow> Inl KeyError
      | Tc_dict (Some fcc) \<Rightarrow>
          (case to_function_calling_config fcc of
             Inl e \<Rightarrow> Inl e
           | Inr c \<Rightarrow> Inr \<lparr>function_calling_config = c\<rparr>)
      | Tc_other \<Rightarrow> Inl TypeError)"

section \<open>The model wrapper and the model-call collaborator (generative_models.py)\<close>

text \<open>
  A response of the service has the block reason of its prompt feedback (\<open>0\<close> is
  \<open>BLOCK_REASON_UNSPECIFIED\<close>) and its candidates; \<open>response\<close> is the wrapper
  \<open>GenerateContentResponse\<close> around it, with the error it may have stored (\<open>_error\<close>).
  The wrapper is built by \<open>from_response\<close> for a plain call and by \<open>from_iterator\<close>
  for a streamed one. The wrapper's class is not part of the two source files; of its
  behaviour the session relies on this: a streamed response is not done until the
  caller has consumed its stream (\<open>resolve\<close>), and reading \<open>candidates\<close> of a
  response that is not done raises \<open>IncompleteIterationError\<close>, the exception
  \<open>ChatSession.__repr__\<close> expects from \<open>history\<close>. The prompt feedback can be read
  at once. \<open>r_result\<close> of a streamed response is what the stream delivers in the end.
\<close>

datatype finish_reason =
  FINISH_REASON_UNSPECIFIED | STOP | MAX_TOKENS | SAFETY | RECITATION | OTHER

record candidate =
  finish_reason :: finish_reason
  c_content :: content

record glm_response =
  block_reason :: nat
  candidates :: "candidate list"

record response =
  r_result :: glm_response
  r_error :: "error option"
  r_done :: bool

definition from_response :: "glm_response \<Rightarrow> response" where
  "from_response raw = \<lparr>r_result = raw, r_error = None, r_done = True\<rparr>"

definition from_iterator :: "glm_response \<Rightarrow> response" where
  "from_iterator raw = \<lparr>r_result = raw, r_error = None, r_done = False\<rparr>"

definition resolve :: "response \<Rightarrow> response" where
  "resolve r = r\<lparr>r_done := True\<rparr>"

text \<open>The property \<open>response.candidates\<close>.\<close>

definition r_candidates :: "response \<Rightarrow> error + candidate list" where
  "r_candidates r =
     (if r_done r then Inr (candidates (r_result r)) else Inl IncompleteIterationError)"

record request =
  rq_model :: string
  rq_contents :: "content list"
  rq_generation_config :: "pyval pydict"
  rq_safety_settings :: pyval
  rq_tools :: "fproto list list option"
  rq_tool_config :: "tool_config option"
  rq_system_instructions :: "content option"

text \<open>
  The model-call collaborator is scripted: each call takes the next entry of
  \<open>script\<close> (a response, or the exception the call raises) and is recorded in
  \<open>requests\<close> with its \<open>stream\<close> flag. A call on an empty script raises
  \<open>StopIteration\<close>.
\<close>

record client =
  script :: "(error + glm_response) list"
  requests :: "(request \<times> bool) list"

definition client_call :: "request \<Rightarrow> bool \<Rightarrow> client \<Rightarrow> (error + glm_response) \<times> client" where
  "client_call rq stream cl =
     (case script cl of
        [] \<Rightarrow> (Inl StopIteration, cl\<lparr>requests := requests cl @ [(rq, stream)]\<rparr>)
      | r # rs \<Rightarrow> (r, \<lparr>script = rs, requests = requests cl @ [(rq, stream)]\<rparr>))"

text \<open>
  Functions of \<open>generation_types\<close> and \<open>safety_types\<close>, which are not among the
  sources, and pydantic are parameters, collected in \<open>externals\<close>. A leading
  underscore of a Python attribute is written \<open>priv_\<close>.
\<close>

record externals =
  to_generation_config_dict :: "pyval pydict option \<Rightarrow> error + pyval pydict"
  to_easy_safety_dict :: "pyval pydict option \<Rightarrow> error + pyval pydict"
  normalize_safety_settings :: "pyval pydict \<Rightarrow> error + pyval"
  pydantic_schema :: pydantic

record GenerativeModel =
  priv_model_name :: string
  priv_safety_settings :: "pyval pydict"
  priv_generation_config :: "pyval pydict"
  priv_tools :: "function_library option"
  priv_tool_config :: "tool_config option"
  priv_system_instructions :: "content option"

definition get_tools_lib ::
  "externals \<Rightarrow> GenerativeModel \<Rightarrow> library_in option \<Rightarrow> error + function_library option" where
  "get_tools_lib ext m tools =
     (case tools of
        None \<Rightarrow> Inr (priv_tools m)
      | Some t \<Rightarrow> to_function_library (pydantic_schema ext) (Some t))"

text \<open>The tool configuration of a request: the model's own when the call gives
  none, else the call's, converted.\<close>

definition merge_tool_config ::
  "GenerativeModel \<Rightarrow> tool_config_in option \<Rightarrow> error + tool_config option" where
  "merge_tool_config m tool_config =
     (case tool_config of
        None \<Rightarrow> Inr (priv_tool_config m)
      | Some tc \<Rightarrow> map_sum id Some (to_tool_config tc))"

definition prepare_request ::
  "externals \<Rightarrow> GenerativeModel \<Rightarrow> pyobj \<Rightarrow> pyval pydict option \<Rightarrow> pyval pydict option \<Rightarrow>
   library_in option \<Rightarrow> tool_config_in option \<Rightarrow> error + request" where
  "prepare_request ext m contents generation_config safety_settings tools tool_config =
     (if \<not> truthy contents then Inl TypeError
      else case get_tools_lib ext m tools of
        Inl e \<Rightarrow> Inl e
      | Inr tools_lib \<Rightarrow>
      (case merge_tool_config m tool_config of
        Inl e \<Rightarrow> Inl e
      | Inr tool_config' \<Rightarrow>
      (case to_contents contents of
        Inl e \<Rightarrow> Inl e
      | Inr contents' \<Rightarrow>
      (case to_generation_config_dict ext generation_config of
        Inl e \<Rightarrow> Inl e
      | Inr gc \<Rightarrow>
      (case to_easy_safety_dict ext safety_settings of
        Inl e \<Rightarrow> Inl e
      | Inr ss \<Rightarrow>
      (case normalize_safety_settings ext (dict_update_all (priv_safety_settings m) ss) of
        Inl e \<Rightarrow> Inl e
      | Inr merged_ss \<Rightarrow>
          Inr \<lparr>rq_model = priv_model_name m,
               rq_contents = contents',
               rq_generation_config = dict_update_all (priv_generation_config m) gc,
               rq_safety_settings = merged_ss,
               rq_tools = map_option FunctionLibrary_to_proto tools_lib,
               rq_tool_config = tool_config',
               rq_system_instructions = priv_system_instructions m\<rparr>))))))"

definition generate_content ::
  "externals \<Rightarrow> GenerativeModel \<Rightarrow> pyobj \<Rightarrow> pyval pydict option \<Rightarrow> pyval pydict option \<Rightarrow>
   bool \<Rightarrow> library_in option \<Rightarrow> tool_config_in option \<Rightarrow> client \<Rightarrow>
   (error + response) \<times> client" where
  "generate_content ext m contents generation_config safety_settings stream tools tool_config cl =
     (case prepare_request ext m contents generation_config safety_settings tools tool_config of
        Inl e \<Rightarrow> (Inl e, cl)
      | Inr rq \<Rightarrow>
          (case client_call rq stream cl of
             (Inl e, cl') \<Rightarrow> (Inl e, cl')
           | (Inr raw, cl') \<Rightarrow>
               (Inr (if stream then from_iterator raw else from_response raw), cl')))"


section \<open>The chat session (generative_models.py)\<close>

text \<open>
  \<open>_last_sent\<close> and \<open>_last_received\<close> are assigned together and cleared together
  by every method of \<open>ChatSession\<close>, so the two slots are one optional pair
  \<open>priv_last\<close>: \<open>None\<close> is the idle session, \<open>Some (sent, received)\<close> a pending
  turn.
\<close>

record ChatSession =
  model :: GenerativeModel
  priv_history :: "content list"
  priv_last :: "(content \<times> response) option"
  enable_automatic_function_calling :: bool

definition USER_ROLE :: string where "USER_ROLE = ''user''"
definition MODEL_ROLE :: string where "MODEL_ROLE = ''model''"

definition ChatSession_init :: "GenerativeModel \<Rightarrow> pyobj \<Rightarrow> bool \<Rightarrow> error + ChatSession" where
  "ChatSession_init m history enable =
     (case to_contents history of
        Inl e \<Rightarrow> Inl e
      | Inr h \<Rightarrow>
          Inr \<lparr>model = m, priv_history = h, priv_last = None,
               enable_automatic_function_calling = enable\<rparr>)"

definition finish_ok :: "finish_reason \<Rightarrow> bool" where
  "finish_ok fr = (fr \<in> set [FINISH_REASON_UNSPECIFIED, STOP, MAX_TOKENS])"

text \<open>
  The \<open>history\<close> property: it returns the history and the session it leaves.
  Reading the candidates of the pending response can raise; an abnormal finish stores
  an error in the pending response; a stored error raises \<open>BrokenResponseError\<close>;
  otherwise the pending pair is appended and cleared.
\<close>

definition history :: "ChatSession \<Rightarrow> (error + content list) \<times> ChatSession" where
  "history s =
     (case priv_last s of
        None \<Rightarrow> (Inr (priv_history s), s)
      | Some (sent, received) \<Rightarrow>
          (case r_candidates received of
             Inl e \<Rightarrow> (Inl e, s)
           | Inr [] \<Rightarrow> (Inl IndexError, s)
           | Inr (c # cs) \<Rightarrow>
               (let lst = (if \<not> finish_ok (finish_reason c)
                           then received\<lparr>r_error := Some StopCandidateException\<rparr>
                           else received)
                in if r_error lst \<noteq> None
                   then (Inl BrokenResponseError, s\<lparr>priv_last := Some (sent, lst)\<rparr>)
                   else
                     (let rc = c_content c;
                          rc = (if role rc = [] then rc\<lparr>role := MODEL_ROLE\<rparr> else rc);
                          h = priv_history s @ [sent, rc]
                      in (Inr h, s\<lparr>priv_history := h, priv_last := None\<rparr>)))))"

definition history_set :: "pyobj \<Rightarrow> ChatSession \<Rightarrow> (error + unit) \<times> ChatSession" where
  "history_set h s =
     (case to_contents h of
        Inl e \<Rightarrow> (Inl e, s)
      | Inr h' \<Rightarrow> (Inr (), s\<lparr>priv_history := h', priv_last := None\<rparr>))"

text \<open>\<open>list.pop(i)\<close>: a negative index counts from the end; out of range raises.\<close>

definition list_pop :: "'a list \<Rightarrow> int \<Rightarrow> error + 'a \<times> 'a list" where
  "list_pop xs i =
     (let n = int (length xs); j = (if i < 0 then i + n else i)
      in if j < 0 \<or> n \<le> j then Inl IndexError
         else Inr (xs ! nat j, take (nat j) xs @ drop (Suc (nat j)) xs))"

definition rewind :: "ChatSession \<Rightarrow> (error + content \<times> content) \<times> ChatSession" where
  "rewind s =
     (case priv_last s of
        None \<Rightarrow>
          (case list_pop (priv_history s) (- 2) of
             Inl e \<Rightarrow> (Inl e, s)
           | Inr (a, h) \<Rightarrow>
               (case list_pop h (- 1) of
                  Inl e \<Rightarrow> (Inl e, s\<lparr>priv_history := h\<rparr>)
                | Inr (b, h') \<Rightarrow> (Inr (a, b), s\<lparr>priv_history := h'\<rparr>)))
      | Some (sent, received) \<Rightarrow>
          (case r_candidates received of
             Inl e \<Rightarrow> (Inl e, s)
           | Inr [] \<Rightarrow> (Inl IndexError, s)
           | Inr (c # cs) \<Rightarrow> (Inr (sent, c_content c), s\<lparr>priv_last := None\<rparr>)))"

text \<open>
  The caller of a streamed \<open>send_message\<close> holds the very response object the session
  keeps as pending: once the caller has consumed the stream, the pending response is
  done.
\<close>

definition resolve_last :: "ChatSession \<Rightarrow> ChatSession" where
  "resolve_last s =
     s\<lparr>priv_last := map_option (\<lambda>(sent, received). (sent, resolve received)) (priv_last s)\<rparr>"

definition last_response :: "ChatSession \<Rightarrow> response option" where
  "last_response s = map_option snd (priv_last s)"

text \<open>\<open>_check_response\<close> and \<open>_get_function_calls\<close>.\<close>

definition check_response :: "response \<Rightarrow> bool \<Rightarrow> error + unit" where
  "check_response r stream =
     (if block_reason (r_result r) \<noteq> 0 then Inl BlockedPromptException
      else if \<not> stream then
        (case r_candidates r of
           Inl e \<Rightarrow> Inl e
         | Inr [] \<Rightarrow> Inl IndexError
         | Inr (c # cs) \<Rightarrow>
             if \<not> finish_ok (finish_reason c) then Inl StopCandidateException else Inr ())
      else Inr ())"

fun function_call_of :: "part \<Rightarrow> function_call option" where
  "function_call_of (Part_function_call fc) = Some fc"
| "function_call_of other = None"

text \<open>
  \<open>[part.function_call for part in parts if part and "function_call" in part]\<close>: a
  part counts when it is true and its \<open>function_call\<close> variant is set.
\<close>

definition function_calls_of :: "part list \<Rightarrow> function_call list" where
  "function_calls_of ps =
     List.map_filter (\<lambda>p. if part_bool p then function_call_of p else None) ps"

definition get_function_calls :: "response \<Rightarrow> error + function_call list" where
  "get_function_calls r =
     (case r_candidates r of
        Inl e \<Rightarrow> Inl e
      | Inr cands \<Rightarrow>
          if length cands \<noteq> 1 then Inl ValueError
          else Inr (function_calls_of (parts (c_content (hd cands)))))"

text \<open>
  \<open>all(callable(tools_lib[fc]) for fc in function_calls)\<close> stops at the first call
  that is not callable and raises if a name is unknown; \<open>call_all\<close> is the loop that
  invokes every call, with its assertion.
\<close>

fun all_callable :: "function_library \<Rightarrow> function_call list \<Rightarrow> error + bool" where
  "all_callable lib [] = Inr True"
| "all_callable lib (fc # fcs) =
     (case FunctionLibrary_getitem lib (Inr fc) of
        Inl e \<Rightarrow> Inl e
      | Inr d \<Rightarrow> if is_callable d then all_callable lib fcs else Inr False)"

fun call_all ::
  "function_library \<Rightarrow> function_call list \<Rightarrow> call_log \<Rightarrow> (error + part list) \<times> call_log" where
  "call_all lib [] lg = (Inr [], lg)"
| "call_all lib (fc # fcs) lg =
     (case FunctionLibrary_call lib fc lg of
        (Inl e, lg') \<Rightarrow> (Inl e, lg')
      | (Inr None, lg') \<Rightarrow> (Inl AssertionError, lg')
      | (Inr (Some fr), lg') \<Rightarrow>
          (case call_all lib fcs lg' of
             (Inl e, lg'') \<Rightarrow> (Inl e, lg'')
           | (Inr frs, lg'') \<Rightarrow> (Inr (fr # frs), lg'')))"

text \<open>\<open>*history, content = history\<close>, the end of \<open>_handle_afc\<close>.\<close>

definition unpack_last :: "content list \<Rightarrow> response \<Rightarrow> error + content list \<times> content \<times> response"
where
  "unpack_last h r = (if h = [] then Inl ValueError else Inr (butlast h, List.last h, r))"

text \<open>
  \<open>_handle_afc\<close>. Every round of the loop takes one entry of the collaborator's
  script, so the loop ends when the script does.
\<close>

lemma generate_content_script:
  "generate_content ext m c gc ss st t tc cl = (Inr r, cl') \<Longrightarrow>
   length (script cl') < length (script cl)"
  by (auto simp: generate_content_def client_call_def split: sum.splits list.splits)

function handle_afc ::
  "externals \<Rightarrow> GenerativeModel \<Rightarrow> response \<Rightarrow> content list \<Rightarrow> pyval pydict option \<Rightarrow>
   pyval pydict option \<Rightarrow> bool \<Rightarrow> function_library \<Rightarrow> client \<Rightarrow> call_log \<Rightarrow>
   (error + content list \<times> content \<times> response) \<times> client \<times> call_log" where
  "handle_afc ext m r h generation_config safety_settings stream tools_lib cl lg =
     (case get_function_calls r of
        Inl e \<Rightarrow> (Inl e, cl, lg)
      | Inr function_calls \<Rightarrow>
          if function_calls = [] then (unpack_last h r, cl, lg)
          else
            (case all_callable tools_lib function_calls of
               Inl e \<Rightarrow> (Inl e, cl, lg)
             | Inr ok \<Rightarrow>
                 if \<not> ok then (unpack_last h r, cl, lg)
                 else
                   (let h1 = h @ [c_content (hd (candidates (r_result r)))]
                    in case call_all tools_lib function_calls lg of
                      (Inl e, lg') \<Rightarrow> (Inl e, cl, lg')
                    | (Inr function_response_parts, lg') \<Rightarrow>
                        (let send = \<lparr>role = USER_ROLE, parts = function_response_parts\<rparr>;
                             h2 = h1 @ [send]
                         in case generate_content ext m (PyList (map PyContent h2))
                                   generation_config safety_settings stream
                                   (Some (Li_library tools_lib)) None cl of
                           (Inl e, cl') \<Rightarrow> (Inl e, cl', lg')
                         | (Inr r', cl') \<Rightarrow>
                             (case check_response r' stream of
                                Inl e \<Rightarrow> (Inl e, cl', lg')
                              | Inr u \<Rightarrow>
                                  handle_afc ext m r' h2 generation_config safety_settings
                                    stream tools_lib cl' lg')))))"
  by pat_completeness auto
termination
  apply (relation "measure (\<lambda>(ext, m, r, h, gc, ss, st, lib, cl, lg). length (script cl))")
   apply simp
  apply (auto dest: generate_content_script[OF sym])
  done

declare handle_afc.simps [simp del]


text \<open>\<open>generation_config.get("candidate_count", 1) > 1\<close>\<close>

definition candidate_count_exceeds :: "pyval pydict \<Rightarrow> error + bool" where
  "candidate_count_exceeds gc =
     (case map_of gc ''candidate_count'' of
        None \<Rightarrow> Inr False
      | Some (VInt n) \<Rightarrow> Inr (n > 1)
      | Some (VFloat x) \<Rightarrow> Inr (x > 1)
      | Some (VBool b) \<Rightarrow> Inr False
      | Some _ \<Rightarrow> Inl TypeError)"

text \<open>
  \<open>send_message\<close> works on the session, the collaborator and the log of callable
  invocations.
\<close>

record world =
  chat :: ChatSession
  client :: client
  calls :: call_log

definition send_message ::
  "externals \<Rightarrow> pyobj \<Rightarrow> pyval pydict option \<Rightarrow> pyval pydict option \<Rightarrow> bool \<Rightarrow>
   library_in option \<Rightarrow> tool_config_in option \<Rightarrow> world \<Rightarrow> (error + response) \<times> world" where
  "send_message ext content generation_config safety_settings stream tools tool_config w =
     (let s = chat w in
      if enable_automatic_function_calling s \<and> stream then (Inl NotImplementedError, w)
      else case get_tools_lib ext (model s) tools of
        Inl e \<Rightarrow> (Inl e, w)
      | Inr tools_lib \<Rightarrow>
      (case to_content content of
        Inl e \<Rightarrow> (Inl e, w)
      | Inr c0 \<Rightarrow>
      (let c = (if role c0 = [] then c0\<lparr>role := USER_ROLE\<rparr> else c0)
       in case history s of
        (Inl e, s1) \<Rightarrow> (Inl e, w\<lparr>chat := s1\<rparr>)
      | (Inr h0, s1) \<Rightarrow>
      (let h = h0 @ [c]; w1 = w\<lparr>chat := s1\<rparr>
       in case to_generation_config_dict ext generation_config of
        Inl e \<Rightarrow> (Inl e, w1)
      | Inr gc \<Rightarrow>
      (case candidate_count_exceeds gc of
        Inl e \<Rightarrow> (Inl e, w1)
      | Inr exceeds \<Rightarrow>
      if exceeds then (Inl ValueError, w1)
      else
      (case generate_content ext (model s) (PyList (map PyContent h)) (Some gc) safety_settings
              stream (map_option Li_library tools_lib) tool_config (client w1) of
        (Inl e, cl) \<Rightarrow> (Inl e, w1\<lparr>client := cl\<rparr>)
      | (Inr r, cl) \<Rightarrow>
      (let w2 = w1\<lparr>client := cl\<rparr>
       in case check_response r stream of
        Inl e \<Rightarrow> (Inl e, w2)
      | Inr u \<Rightarrow>
      (case (if enable_automatic_function_calling s then tools_lib else None) of
        None \<Rightarrow> (Inr r, w2\<lparr>chat := s1\<lparr>priv_last := Some (c, r)\<rparr>\<rparr>)
      | Some lib \<Rightarrow>
      (case handle_afc ext (model s) r h (Some gc) safety_settings stream lib cl (calls w2) of
        (Inl e, cl', lg') \<Rightarrow> (Inl e, w2\<lparr>client := cl', calls := lg'\<rparr>)
      | (Inr (h', c', r'), cl', lg') \<Rightarrow>
      (case history_set (PyList (map PyContent h')) s1 of
        (Inl e, s2) \<Rightarrow> (Inl e, \<lparr>chat = s2, client = cl', calls = lg'\<rparr>)
      | (Inr u', s2) \<Rightarrow>
          (Inr r', \<lparr>chat = s2\<lparr>priv_last := Some (c', r')\<rparr>, client = cl', calls = lg'\<rparr>)
      ))))))))))"


text \<open>The session after \<open>n\<close> reads of \<open>history\<close>.\<close>

fun reads :: "nat \<Rightarrow> ChatSession \<Rightarrow> ChatSession" where
  "reads 0 s = s"
| "reads (Suc n) s = reads n (snd (history s))"

text \<open>Concrete values: a model without defaults, a question and its answer, and a
  session whose pending response was stopped for safety.\<close>

definition demo_model :: GenerativeModel where
  "demo_model =
     \<lparr>priv_model_name = ''models/gemini-pro'', priv_safety_settings = [],
      priv_generation_config = [], priv_tools = None, priv_tool_config = None,
      priv_system_instructions = None\<rparr>"

definition question :: content where
  "question = \<lparr>role = ''user'', parts = [Part_text ''hello'']\<rparr>"

definition answer :: content where
  "answer = \<lparr>role = ''model'', parts = [Part_text ''hi'']\<rparr>"

definition stopped_response :: response where
  "stopped_response =
     from_response
       \<lparr>block_reason = 0,
        candidates = [\<lparr>finish_reason = SAFETY, c_content = \<lparr>role = [], parts = []\<rparr>\<rparr>]\<rparr>"

definition broken_session :: ChatSession where
  "broken_session =
     \<lparr>model = demo_model, priv_history = [question, answer],
      priv_last = Some (\<lparr>role = ''user'', parts = [Part_text ''more'']\<rparr>, stopped_response),
      enable_automatic_function_calling = False\<rparr>"

section \<open>Notions of the specification\<close>

text \<open>
  The \<open>required\<close> entry of a synthesized schema, and "the parameters with no default
  value": those of a fixed-name kind whose default is \<open>Parameter.empty\<close>.
\<close>

definition schema_required :: "schema \<Rightarrow> pyval option" where
  "schema_required s = map_of (s_parameters s) ''required''"

definition no_default_parameters :: "py_function \<Rightarrow> string list" where
  "no_default_parameters f =
     (case fn_signature f of
        None \<Rightarrow> []
      | Some ps \<Rightarrow> map fst (filter (\<lambda>kp. p_default (snd kp) = None \<and> fixed_kind (p_kind (snd kp))) ps))"

text \<open>
  "No raw \<open>type\<close> or \<open>format\<close> key anywhere": \<open>no_raw_key\<close> looks at every
  dictionary nested in a value, whatever key or list it is under; \<open>renamed\<close> looks at
  the schema itself, at its \<open>items\<close> and at each value of its \<open>properties\<close>, the
  places \<open>_rename_schema_fields\<close> visits.
\<close>

fun no_raw_key :: "pyval \<Rightarrow> bool"
  and no_raw_keys :: "pyval list \<Rightarrow> bool"
  and no_raw_fields :: "pyval pydict \<Rightarrow> bool"
where
  "no_raw_key (VDict d) = no_raw_fields d"
| "no_raw_key (VList xs) = no_raw_keys xs"
| "no_raw_key VNone = True"
| "no_raw_key (VBool b) = True"
| "no_raw_key (VInt i) = True"
| "no_raw_key (VFloat x) = True"
| "no_raw_key (VStr s) = True"
| "no_raw_keys [] = True"
| "no_raw_keys (x # xs) = (no_raw_key x \<and> no_raw_keys xs)"
| "no_raw_fields [] = True"
| "no_raw_fields (kv # kvs) =
     (fst kv \<noteq> ''type'' \<and> fst kv \<noteq> ''format'' \<and> no_raw_key (snd kv) \<and> no_raw_fields kvs)"

function renamed :: "pyval \<Rightarrow> bool"
  and renamed_properties :: "pyval pydict \<Rightarrow> bool"
where
  "renamed (VDict d) =
     (\<not> dict_has d ''type'' \<and> \<not> dict_has d ''format'' \<and>
      (case map_of d ''items'' of None \<Rightarrow> True | Some i \<Rightarrow> renamed i) \<and>
      (case map_of d ''properties'' of
         None \<Rightarrow> True
       | Some p \<Rightarrow> (case p of VDict ps \<Rightarrow> renamed_properties ps | _ \<Rightarrow> True)))"
| "renamed (VList xs) = True"
| "renamed VNone = True"
| "renamed (VBool b) = True"
| "renamed (VInt i) = True"
| "renamed (VFloat x) = True"
| "renamed (VStr s) = True"
| "renamed_properties [] = True"
| "renamed_properties (kv # kvs) = (renamed (snd kv) \<and> renamed_properties kvs)"
  by pat_completeness auto
termination
  apply (relation "measure (\<lambda>a. case a of
      Inl v \<Rightarrow> size v
    | Inr d \<Rightarrow> size_list (size_prod (\<lambda>_. 0) size) d)")
  apply simp_all
  subgoal for d x2 using size_map_of_pyval[of d "''items''" x2] by simp
  subgoal for d x2 x6 using size_map_of_pyval[of d "''properties''" "VDict x6"] by simp
  subgoal for kv kvs by (cases kv) simp
  done

text \<open>The renamed schema a declaration holds.\<close>

definition declared_parameters :: "error + fdecl \<Rightarrow> error + pyval" where
  "declared_parameters r = map_sum id (\<lambda>d. decl_parameters (to_proto d)) r"

text \<open>
  Resolving a name in the outcome of a library construction, and the declarations and
  the library used at concrete inputs: a declaration without a callable, and a callable
  \<open>add_one(x)\<close> that returns \<open>x + 1\<close>. The arguments of a call come out of a
  \<open>Struct\<close>, so \<open>add_one\<close> is given a float there and returns one; it takes an
  integer, or a float that holds an integer below \<open>2 ^ 53\<close> (where the sum is exact),
  and raises \<open>TypeError\<close> for anything else.
\<close>

definition resolve_in :: "error + function_library \<Rightarrow> string \<Rightarrow> error + fdecl" where
  "resolve_in r n =
     (case r of Inl e \<Rightarrow> Inl e | Inr lib \<Rightarrow> FunctionLibrary_getitem lib (Inl n))"

definition plain_declaration :: "string \<Rightarrow> fdecl" where
  "plain_declaration n =
     FunctionDeclaration \<lparr>decl_name = n, decl_description = [], decl_parameters = VNone\<rparr>"

definition add_one :: py_callable where
  "add_one kw =
     (case map_of kw ''x'' of
        Some (VInt i) \<Rightarrow> Inr (VInt (i + 1))
      | Some (VFloat x) \<Rightarrow>
          if of_int \<lfloor>x\<rfloor> = x \<and> \<bar>x\<bar> < 2 ^ 53 then Inr (VFloat (x + 1)) else Inl TypeError
      | _ \<Rightarrow> Inl TypeError)"

definition add_one_declaration :: fdecl where
  "add_one_declaration =
     CallableFunctionDeclaration
       \<lparr>decl_name = ''add_one'', decl_description = [], decl_parameters = VNone\<rparr> add_one"

definition add_one_library :: function_library where
  "add_one_library =
     \<lparr>lib_tools = [\<lparr>function_declarations = [add_one_declaration, plain_declaration ''g''],
                     tool_index = [(''add_one'', add_one_declaration), (''g'', plain_declaration ''g'')]\<rparr>],
      lib_index = [(''add_one'', add_one_declaration), (''g'', plain_declaration ''g'')]\<rparr>"

text \<open>
  A library with one callable declaration, a callable that returns \<open>2 ^ 53 + 1\<close>,
  the first integer no double holds, and the values a \<open>Struct\<close> stores unchanged:
  \<open>struct_exact v\<close> says that every integer in \<open>v\<close> is at most \<open>2 ^ 53\<close> in
  magnitude, and \<open>as_floats v\<close> is \<open>v\<close> with every integer written as the float of
  the same value.
\<close>

definition single_library :: "string \<Rightarrow> py_callable \<Rightarrow> function_library" where
  "single_library n f =
     (let d = CallableFunctionDeclaration
                \<lparr>decl_name = n, decl_description = [], decl_parameters = VNone\<rparr> f
      in \<lparr>lib_tools = [\<lparr>function_declarations = [d], tool_index = [(n, d)]\<rparr>],
          lib_index = [(n, d)]\<rparr>)"

definition beyond_double :: py_callable where
  "beyond_double kw = Inr (VInt 9007199254740993)"

fun struct_exact :: "pyval \<Rightarrow> bool"
  and struct_exact_list :: "pyval list \<Rightarrow> bool"
  and struct_exact_fields :: "(string \<times> pyval) list \<Rightarrow> bool"
where
  "struct_exact VNone = True"
| "struct_exact (VBool b) = True"
| "struct_exact (VInt n) = (\<bar>n\<bar> \<le> 2 ^ 53)"
| "struct_exact (VFloat x) = True"
| "struct_exact (VStr s) = True"
| "struct_exact (VList vs) = struct_exact_list vs"
| "struct_exact (VDict d) = struct_exact_fields d"
| "struct_exact_list [] = True"
| "struct_exact_list (v # vs) = (struct_exact v \<and> struct_exact_list vs)"
| "struct_exact_fields [] = True"
| "struct_exact_fields (kv # kvs) = (struct_exact (snd kv) \<and> struct_exact_fields kvs)"

fun as_floats :: "pyval \<Rightarrow> pyval"
  and as_floats_list :: "pyval list \<Rightarrow> pyval list"
  and as_floats_fields :: "(string \<times> pyval) list \<Rightarrow> (string \<times> pyval) list"
where
  "as_floats VNone = VNone"
| "as_floats (VBool b) = VBool b"
| "as_floats (VInt n) = VFloat (of_int n)"
| "as_floats (VFloat x) = VFloat x"
| "as_floats (VStr s) = VStr s"
| "as_floats (VList vs) = VList (as_floats_list vs)"
| "as_floats (VDict d) = VDict (as_floats_fields d)"
| "as_floats_list [] = []"
| "as_floats_list (v # vs) = as_floats v # as_floats_list vs"
| "as_floats_fields [] = []"
| "as_floats_fields (kv # kvs) = (fst kv, as_floats (snd kv)) # as_floats_fields kvs"

text \<open>
  A request of a continuation round of \<open>_handle_afc\<close>: it is what
  \<open>_prepare_request\<close> builds from the overrides of the loop, the tool library and no
  tool configuration, for some working history. \<open>continuation_request m p0 p\<close>
  compares a request \<open>p\<close> with the request \<open>p0\<close> of round 0 and with the tool
  configuration of the model; \<open>same_overrides_and_tools p0 p\<close> compares the
  overrides, the \<open>stream\<close> flag and the tool declarations only.
\<close>

definition continuation_of :: "externals \<Rightarrow> GenerativeModel \<Rightarrow> pyval pydict option \<Rightarrow>
  pyval pydict option \<Rightarrow> bool \<Rightarrow> function_library \<Rightarrow> request \<times> bool \<Rightarrow> bool" where
  "continuation_of ext m gc ss stream lib p =
     (snd p = stream \<and>
      (\<exists>h. prepare_request ext m (PyList (map PyContent h)) gc ss (Some (Li_library lib)) None =
           Inr (fst p)))"

definition continuation_request :: "GenerativeModel \<Rightarrow> request \<times> bool \<Rightarrow> request \<times> bool \<Rightarrow> bool" where
  "continuation_request m p0 p =
     (rq_generation_config (fst p) = rq_generation_config (fst p0) \<and>
      rq_safety_settings (fst p) = rq_safety_settings (fst p0) \<and>
      rq_tools (fst p) = rq_tools (fst p0) \<and>
      rq_tools (fst p) \<noteq> None \<and>
      rq_tool_config (fst p) = priv_tool_config m \<and>
      snd p = snd p0)"

definition same_overrides_and_tools :: "request \<times> bool \<Rightarrow> request \<times> bool \<Rightarrow> bool" where
  "same_overrides_and_tools p0 p =
     (rq_generation_config (fst p) = rq_generation_config (fst p0) \<and>
      rq_safety_settings (fst p) = rq_safety_settings (fst p0) \<and>
      rq_tools (fst p) = rq_tools (fst p0) \<and>
      rq_tools (fst p) \<noteq> None \<and>
      snd p = snd p0)"

text \<open>
  Concrete values for the chat session: externals that take a dictionary as it is, a
  plain-text response and a response that calls \<open>add_one(x=1)\<close>, a session with a
  pending, normally finished turn, and a session with automatic function calling whose
  collaborator answers first with the function call and then with the text.
\<close>

definition plain_externals :: externals where
  "plain_externals =
     \<lparr>to_generation_config_dict = (\<lambda>g. Inr (case g of None \<Rightarrow> [] | Some d \<Rightarrow> d)),
      to_easy_safety_dict = (\<lambda>g. Inr (case g of None \<Rightarrow> [] | Some d \<Rightarrow> d)),
      normalize_safety_settings = (\<lambda>d. Inr (VDict d)),
      pydantic_schema = pydantic_stub\<rparr>"

definition text_response :: glm_response where
  "text_response =
     \<lparr>block_reason = 0,
      candidates = [\<lparr>finish_reason = STOP,
                     c_content = \<lparr>role = [], parts = [Part_text ''2'']\<rparr>\<rparr>]\<rparr>"

definition call_response :: glm_response where
  "call_response =
     \<lparr>block_reason = 0,
      candidates =
        [\<lparr>finish_reason = STOP,
          c_content = \<lparr>role = ''model'',
                       parts = [Part_function_call
                                  \<lparr>fc_name = ''add_one'', args = Some [(''x'', VFloat 1)]\<rparr>]\<rparr>\<rparr>]\<rparr>"

definition pending_world :: world where
  "pending_world =
     \<lparr>chat = \<lparr>model = demo_model, priv_history = [],
               priv_last = Some (question,
                 from_response \<lparr>block_reason = 0,
                                candidates = [\<lparr>finish_reason = STOP, c_content = answer\<rparr>]\<rparr>),
               enable_automatic_function_calling = False\<rparr>,
      client = \<lparr>script = [Inr text_response], requests = []\<rparr>,
      calls = []\<rparr>"

definition afc_world :: world where
  "afc_world =
     \<lparr>chat = \<lparr>model = demo_model\<lparr>priv_tools := Some add_one_library\<rparr>,
               priv_history = [question, answer], priv_last = None,
               enable_automatic_function_calling = True\<rparr>,
      client = \<lparr>script = [Inr call_response, Inr text_response], requests = []\<rparr>,
      calls = []\<rparr>"

text \<open>
  A session with automatic function calling over a library \<open>lib\<close> whose collaborator
  answers first with the single function call \<open>fc\<close> and then with the text; and a
  session whose pending turn came from a streamed \<open>send_message\<close>, the stream not
  yet consumed.
\<close>

definition call_response_of :: "function_call \<Rightarrow> glm_response" where
  "call_response_of fc =
     \<lparr>block_reason = 0,
      candidates =
        [\<lparr>finish_reason = STOP,
          c_content = \<lparr>role = ''model'', parts = [Part_function_call fc]\<rparr>\<rparr>]\<rparr>"

definition afc_world_of :: "function_library \<Rightarrow> function_call \<Rightarrow> world" where
  "afc_world_of lib fc =
     \<lparr>chat = \<lparr>model = demo_model\<lparr>priv_tools := Some lib\<rparr>,
               priv_history = [question, answer], priv_last = None,
               enable_automatic_function_calling = True\<rparr>,
      client = \<lparr>script = [Inr (call_response_of fc), Inr text_response], requests = []\<rparr>,
      calls = []\<rparr>"

definition streaming_world :: world where
  "streaming_world =
     \<lparr>chat = \<lparr>model = demo_model, priv_history = [],
               priv_last = Some (question,
                 from_iterator \<lparr>block_reason = 0,
                                candidates = [\<lparr>finish_reason = STOP, c_content = answer\<rparr>]\<rparr>),
               enable_automatic_function_calling = False\<rparr>,
      client = \<lparr>script = [Inr text_response], requests = []\<rparr>,
      calls = []\<rparr>"

definition no_candidate_world :: world where
  "no_candidate_world =
     \<lparr>chat = \<lparr>model = demo_model, priv_history = [],
               priv_last = Some (question, from_response \<lparr>block_reason = 0, candidates = []\<rparr>),
               enable_automatic_function_calling = False\<rparr>,
      client = \<lparr>script = [Inr text_response], requests = []\<rparr>,
      calls = []\<rparr>"

text \<open>The tool declarations of the requests the collaborator received, and the
  role a committed response content gets.\<close>

definition request_tools :: "world \<Rightarrow> fproto list list option list" where
  "request_tools w = map (\<lambda>p. rq_tools (fst p)) (requests (client w))"

definition with_model_role :: "content \<Rightarrow> content" where
  "with_model_role c = (if role c = [] then c\<lparr>role := MODEL_ROLE\<rparr> else c)"

definition ask :: content where
  "ask = \<lparr>role = ''user'', parts = [Part_text ''add one to 1'']\<rparr>"

definition call_content :: content where
  "call_content =
     \<lparr>role = ''model'',
      parts = [Part_function_call \<lparr>fc_name = ''add_one'', args = Some [(''x'', VFloat 1)]\<rparr>]\<rparr>"

definition result_content :: content where
  "result_content =
     \<lparr>role = ''user'',
      parts = [Part_function_response
                 \<lparr>fr_name = ''add_one'', response = [(''result'', VFloat 2)]\<rparr>]\<rparr>"

section \<open>Verified properties\<close>

subsection \<open>Coercion\<close>

lemma try_map_Inr_iff:
  "try_map f xs = Inr ys \<longleftrightarrow> list_all2 (\<lambda>x y. f x = Inr y) xs ys"
proof (induction xs arbitrary: ys)
  case Nil
  then show ?case by auto
next
  case (Cons x xs)
  show ?case
    by (cases ys) (auto simp: Cons.IH[symmetric] split: sum.splits)
qed

lemma try_map_first_error:
  "list_all (\<lambda>y. \<exists>c. f y = Inr c) ys \<Longrightarrow> f x = Inl e \<Longrightarrow>
   try_map f (ys @ x # zs) = Inl e"
  by (induction ys) (auto split: sum.splits)

lemma strict_to_content_not_mapping:
  "\<not> is_mapping x \<Longrightarrow>
   strict_to_content x = (case x of PyContent c \<Rightarrow> Inr c | _ \<Rightarrow> Inl TypeError)"
  by (cases x) (simp_all add: strict_to_content_def)

lemma map_sum_id_Inr_iff: "map_sum id f z = Inr y \<longleftrightarrow> (\<exists>w. z = Inr w \<and> y = f w)"
  by (cases z) auto

lemma map_sum_id_Inl_iff: "map_sum id f z = Inl e \<longleftrightarrow> z = Inl e"
  by (cases z) auto

lemma convert_dict_not_content:
  "\<not> is_content_dict d \<Longrightarrow> convert_dict d = Inr y \<Longrightarrow>
   (\<exists>p. y = PyPart p) \<or> (\<exists>b. y = PyBlob b)"
  by (auto simp: map_sum_id_Inr_iff split: if_splits list.splits sum.splits)

lemma strict_to_content_other_dict:
  "\<not> is_content_dict d \<Longrightarrow> convert_dict d = Inr y \<Longrightarrow>
   strict_to_content (PyDict d) = Inl TypeError"
  using convert_dict_not_content[of d y] by (auto simp: strict_to_content_def)

lemma strict_to_content_unknown_dict:
  "\<not> is_content_dict d \<Longrightarrow> \<not> is_part_dict d \<Longrightarrow> \<not> is_blob_dict d \<Longrightarrow>
   strict_to_content (PyDict d) = Inl KeyError"
  by (simp add: strict_to_content_def)

text \<open>
  What \<open>to_contents\<close> does with a list, which can be iterated twice. When
  \<open>strict_to_content\<close> converts every element, the result is that sequence of
  contents, one per element. Otherwise the first element it does not convert decides:
  if it raised \<open>TypeError\<close>, the whole list is treated as the parts of one content
  through \<open>to_content\<close>; if it raised anything else, that error leaves
  \<open>to_contents\<close>. \<open>TypeError\<close> is what every element raises that is neither a
  mapping nor a canonical content, and every mapping without a \<open>parts\<close> key that
  \<open>_convert_dict\<close> turns into a part or a blob; a mapping of no recognised shape
  raises \<open>KeyError\<close>.
\<close>

lemma to_contents_list:
  "(list_all2 (\<lambda>x c. strict_to_content x = Inr c) xs cs \<longrightarrow>
      to_contents (PyList xs) = Inr cs) \<and>
   (list_all (\<lambda>y. \<exists>c. strict_to_content y = Inr c) ys \<and> strict_to_content x = Inl e \<longrightarrow>
      to_contents (PyList (ys @ x # zs)) =
        (if e = TypeError then single_content (PyList (ys @ x # zs)) else Inl e)) \<and>
   (\<not> is_mapping a \<and> \<not> strict_shape a \<longrightarrow> strict_to_content a = Inl TypeError) \<and>
   (\<not> is_content_dict d \<and> convert_dict d = Inr y \<longrightarrow>
      strict_to_content (PyDict d) = Inl TypeError) \<and>
   (\<not> is_content_dict d \<and> \<not> is_part_dict d \<and> \<not> is_blob_dict d \<longrightarrow>
      strict_to_content (PyDict d) = Inl KeyError)"
proof (intro conjI impI)
  assume "list_all2 (\<lambda>x c. strict_to_content x = Inr c) xs cs"
  then have "try_map strict_to_content xs = Inr cs"
    by (simp add: try_map_Inr_iff)
  then show "to_contents (PyList xs) = Inr cs"
    by (simp add: to_contents_def)
next
  assume "list_all (\<lambda>y. \<exists>c. strict_to_content y = Inr c) ys \<and> strict_to_content x = Inl e"
  then have "try_map strict_to_content (ys @ x # zs) = Inl e"
    by (simp add: try_map_first_error)
  then show "to_contents (PyList (ys @ x # zs)) =
      (if e = TypeError then single_content (PyList (ys @ x # zs)) else Inl e)"
    by (simp add: to_contents_def)
next
  assume "\<not> is_mapping a \<and> \<not> strict_shape a"
  then show "strict_to_content a = Inl TypeError"
    by (cases a) (simp_all add: strict_to_content_def)
next
  assume "\<not> is_content_dict d \<and> convert_dict d = Inr y"
  then show "strict_to_content (PyDict d) = Inl TypeError"
    using strict_to_content_other_dict[of d y] by blast
next
  assume "\<not> is_content_dict d \<and> \<not> is_part_dict d \<and> \<not> is_blob_dict d"
  then show "strict_to_content (PyDict d) = Inl KeyError"
    by (simp add: strict_to_content_unknown_dict)
qed

text \<open>
  What it does with a one-shot iterator: the strict pass takes the elements it looked
  at out of the iterator, so when the element \<open>x\<close> raises \<open>TypeError\<close> after the
  elements \<open>ys\<close> passed, \<open>to_content\<close> is left with the elements after \<open>x\<close>
  only.
\<close>

lemma rest_after_first_error:
  "list_all (\<lambda>y. \<exists>c. f y = Inr c) ys \<Longrightarrow> f x = Inl e \<Longrightarrow>
   rest_after_error f (ys @ x # zs) = zs"
  by (induction ys) auto

lemma to_contents_iterator:
  assumes "list_all (\<lambda>y. \<exists>c. strict_to_content y = Inr c) ys"
    and "strict_to_content x = Inl TypeError"
  shows "to_contents (PyIterator (ys @ x # zs)) = single_content (PyIterator zs)"
proof -
  have "try_map strict_to_content (ys @ x # zs) = Inl TypeError"
    using assms by (simp add: try_map_first_error)
  then show ?thesis
    using assms by (simp add: to_contents_def rest_after_first_error)
qed

text \<open>
  C3. The claim holds for the lists of its examples: two content dictionaries give two
  one-part contents, two strings give one content with two text parts. It says the
  same of every iterable, and there the code breaks it: handed a one-shot iterator
  over the two strings \<open>a\<close> and \<open>b\<close>, the strict pass takes \<open>a\<close> out of the
  iterator before it raises \<open>TypeError\<close>, and the fallback builds the single content
  from what is left. The result has the one part \<open>b\<close>, while \<open>to_content\<close> on the
  whole iterator gives the two parts the claim asks for.
\<close>

theorem to_contents_one_shot_iterator:
  "to_contents (PyIterator [PyStr ''a'', PyStr ''b'']) =
     Inr [\<lparr>role = [], parts = [Part_text ''b'']\<rparr>] \<and>
   to_content (PyIterator [PyStr ''a'', PyStr ''b'']) =
     Inr \<lparr>role = [], parts = [Part_text ''a'', Part_text ''b'']\<rparr> \<and>
   to_contents (PyList [PyStr ''a'', PyStr ''b'']) =
     Inr [\<lparr>role = [], parts = [Part_text ''a'', Part_text ''b'']\<rparr>] \<and>
   to_contents (PyList [PyDict [(''parts'', PyList [PyStr ''a''])],
                        PyDict [(''parts'', PyList [PyStr ''b''])]]) =
     Inr [\<lparr>role = [], parts = [Part_text ''a'']\<rparr>, \<lparr>role = [], parts = [Part_text ''b'']\<rparr>]"
  by (simp add: to_contents_def strict_to_content_def single_content_def to_content_def
      is_content_dict_def dict_has_def glm_Content_def known_keys_def str_field_def)

text \<open>
  C4. \<open>to_part\<close> on a canonical function response: the branch that would build the
  \<open>function_response\<close> part tests for \<open>glm.FunctionCall\<close> a second time and is never
  taken, so the value falls through to \<open>to_blob\<close>, which raises \<open>TypeError\<close>. A
  function call, the sibling branch, becomes its part.
\<close>

theorem to_part_function_response_raises:
  "to_part (PyFunctionResponse fr) = Inl TypeError \<and>
   to_part (PyFunctionCall fc) = Inr (Part_function_call fc)"
  by simp

subsection \<open>Schema synthesis\<close>

lemma generate_schema_required:
  "generate_schema pyd f descriptions required = Inr s \<Longrightarrow>
   schema_required s =
     Some (VList (map VStr
       (case required of
          None \<Rightarrow> no_default_parameters f
        | Some r \<Rightarrow> if r = [] then no_default_parameters f else r)))"
  by (auto simp: generate_schema_def schema_required_def no_default_parameters_def Let_def
      update_conv' split: option.splits sum.splits pyval.splits)

lemma no_default_f_a_b: "no_default_parameters f_a_b = [''a'']"
  by (simp add: no_default_parameters_def f_a_b_def fixed_kind_def)

lemma dict_has_pop_type:
  "pop_type d = Inr b \<Longrightarrow> \<not> dict_has b ''type''"
  by (auto simp: pop_type_def Let_def dict_has_def update_conv' delete_conv'
      split: option.splits pyval.splits)

lemma dict_has_pop_format: "\<not> dict_has (pop_format b) ''format''"
  by (auto simp: pop_format_def Let_def dict_has_def update_conv' delete_conv'
      split: option.splits pyval.splits)

lemma dict_has_pop_format_type: "\<not> dict_has b ''type'' \<Longrightarrow> \<not> dict_has (pop_format b) ''type''"
  by (auto simp: pop_format_def Let_def dict_has_def update_conv' delete_conv'
      split: option.splits pyval.splits)

lemma rename_renamed:
  "rename_schema_fields v = Inr v' \<Longrightarrow> renamed v'"
  "rename_properties ps = Inr ps' \<Longrightarrow> renamed_properties ps'"
proof (induction v and ps arbitrary: v' and ps' rule: rename_schema_fields_rename_properties.induct)
  case (7 d)
  from "7.prems" obtain b where b: "pop_type d = Inr b"
    by (auto split: sum.splits)
  define s1 where "s1 = pop_format b"
  define s2 where "s2 = AList.delete ''items'' s1"
  define R where "R =
    (case map_of s1 ''items'' of
       None \<Rightarrow> Inr s2
     | Some i \<Rightarrow>
         if i = VNone then Inr s2
         else (case rename_schema_fields i of
           Inl e \<Rightarrow> Inl e
         | Inr i' \<Rightarrow> Inr (AList.update ''items'' i' s2)))"
  have "\<exists>s3. R = Inr s3"
  proof (cases R)
    case (Inl e)
    then have "rename_schema_fields (VDict d) = Inl e"
      using b unfolding R_def s1_def s2_def by (simp add: Let_def)
    with "7.prems" show ?thesis by simp
  qed simp
  then obtain s3 where s3: "R = Inr s3" ..
  have nt1: "\<not> dict_has s1 ''type''" and nf1: "\<not> dict_has s1 ''format''"
    using b by (simp_all add: s1_def dict_has_pop_type dict_has_pop_format dict_has_pop_format_type)
  have items3: "case map_of s3 ''items'' of None \<Rightarrow> True | Some i \<Rightarrow> renamed i"
    and nt3: "\<not> dict_has s3 ''type''" and nf3: "\<not> dict_has s3 ''format''"
  proof -
    show "case map_of s3 ''items'' of None \<Rightarrow> True | Some i \<Rightarrow> renamed i"
    proof (cases "map_of s1 ''items''")
      case None
      then show ?thesis using s3 by (auto simp: R_def s2_def delete_conv')
    next
      case (Some i)
      show ?thesis
      proof (cases "i = VNone")
        case True
        then show ?thesis using s3 Some by (auto simp: R_def s2_def delete_conv')
      next
        case False
        with s3 Some obtain i' where i': "rename_schema_fields i = Inr i'"
          and s3': "s3 = AList.update ''items'' i' s2"
          by (auto simp: R_def split: sum.splits)
        have "renamed i'"
          using "7.IH"(1) b Some False i' by (simp add: s1_def)
        then show ?thesis by (simp add: s3' update_conv')
      qed
    qed
    show "\<not> dict_has s3 ''type''" "\<not> dict_has s3 ''format''"
      using s3 nt1 nf1
      by (auto simp: R_def s2_def dict_has_def update_conv' delete_conv'
          split: option.splits if_splits sum.splits)
  qed
  define s4 where "s4 = AList.delete ''properties'' s3"
  have v': "(case map_of s3 ''properties'' of
              None \<Rightarrow> Inr (VDict s4)
            | Some VNone \<Rightarrow> Inr (VDict s4)
            | Some (VDict ps) \<Rightarrow>
                (case rename_properties ps of
                   Inl e \<Rightarrow> Inl e
                 | Inr ps' \<Rightarrow> Inr (VDict (AList.update ''properties'' (VDict ps') s4)))
            | Some _ \<Rightarrow> Inl AttributeError) = Inr v'"
    using "7.prems" b s3 unfolding R_def s1_def s2_def s4_def by (simp add: Let_def)
  have base: "renamed (VDict s4)"
    using items3 nt3 nf3 by (simp add: s4_def dict_has_def delete_conv')
  show ?case
  proof (cases "map_of s3 ''properties''")
    case None
    then show ?thesis using v' base by simp
  next
    case (Some p)
    show ?thesis
    proof (cases p)
      case (VDict ps)
      with v' Some obtain ps' where ps': "rename_properties ps = Inr ps'"
        and v'': "v' = VDict (AList.update ''properties'' (VDict ps') s4)"
        by (auto split: sum.splits)
      have "renamed_properties ps'"
        using "7.IH"(2) b s3 Some VDict ps' unfolding R_def s1_def s2_def by simp
      then show ?thesis
        using base by (simp add: v'' dict_has_def update_conv')
    qed (use v' Some base in auto)
  qed
qed (auto split: sum.splits)


lemma upper_object: "upper ''object'' = ''OBJECT''" "upper ''integer'' = ''INTEGER''"
  "upper ''string'' = ''STRING''"
  by (simp_all add: upper_def upper_char_def)

lemma from_function_f_a_b:
  "declared_parameters (from_function pydantic_stub f_a_b None) =
     Inr (VDict [(''required'', VList [VStr ''a'']), (''type_'', VStr ''OBJECT''),
                (''properties'', VDict [(''a'', VDict [(''type_'', VStr ''INTEGER'')]),
                                       (''b'', VDict [(''type_'', VStr ''STRING'')])])])"
  by (simp add: declared_parameters_def from_function_def generate_schema_def pydantic_stub_def
      f_a_b_def fixed_kind_def pydantic_type_def postprocess_arg_def is_nullable_def Let_def
      CallableFunctionDeclaration_init_def FunctionDeclaration_init_def pop_type_def
      pop_format_def upper_object)

text \<open>
  C6 (as amended). The \<open>required\<close> entry of the schema \<open>_generate_schema\<close> returns
  is the caller's list when the caller gives a non-empty one, and otherwise (no list,
  or an empty one) the names of the fixed-name parameters with no default value; for
  \<open>f(a: int, b: str = "x")\<close> these are \<open>["a"]\<close>. Whatever \<open>_rename_schema_fields\<close>
  returns has no \<open>type\<close> and no \<open>format\<close> key, neither at the top nor under
  \<open>items\<close> or under a value of \<open>properties\<close>, and the declaration built from \<open>f\<close>
  holds a schema with no such key anywhere.
\<close>

theorem schema_synthesis:
  "(generate_schema pyd f descriptions required = Inr s \<longrightarrow>
      schema_required s =
        Some (VList (map VStr
          (case required of
             None \<Rightarrow> no_default_parameters f
           | Some r \<Rightarrow> if r = [] then no_default_parameters f else r)))) \<and>
   no_default_parameters f_a_b = [''a''] \<and>
   (rename_schema_fields p = Inr p' \<longrightarrow> renamed p') \<and>
   declared_parameters (from_function pydantic_stub f_a_b None) =
     Inr (VDict [(''required'', VList [VStr ''a'']), (''type_'', VStr ''OBJECT''),
                (''properties'', VDict [(''a'', VDict [(''type_'', VStr ''INTEGER'')]),
                                       (''b'', VDict [(''type_'', VStr ''STRING'')])])]) \<and>
   no_raw_key (VDict [(''required'', VList [VStr ''a'']), (''type_'', VStr ''OBJECT''),
                (''properties'', VDict [(''a'', VDict [(''type_'', VStr ''INTEGER'')]),
                                       (''b'', VDict [(''type_'', VStr ''STRING'')])])])"
proof (intro conjI impI)
  assume "generate_schema pyd f descriptions required = Inr s"
  then show "schema_required s =
        Some (VList (map VStr
          (case required of
             None \<Rightarrow> no_default_parameters f
           | Some r \<Rightarrow> if r = [] then no_default_parameters f else r)))"
    by (rule generate_schema_required)
next
  show "no_default_parameters f_a_b = [''a'']"
    by (rule no_default_f_a_b)
next
  assume "rename_schema_fields p = Inr p'"
  then show "renamed p'"
    by (rule rename_renamed(1))
next
  show "declared_parameters (from_function pydantic_stub f_a_b None) =
     Inr (VDict [(''required'', VList [VStr ''a'']), (''type_'', VStr ''OBJECT''),
                (''properties'', VDict [(''a'', VDict [(''type_'', VStr ''INTEGER'')]),
                                       (''b'', VDict [(''type_'', VStr ''STRING'')])])])"
    by (rule from_function_f_a_b)
next
  show "no_raw_key (VDict [(''required'', VList [VStr ''a'']), (''type_'', VStr ''OBJECT''),
                (''properties'', VDict [(''a'', VDict [(''type_'', VStr ''INTEGER'')]),
                                       (''b'', VDict [(''type_'', VStr ''STRING'')])])])"
    by simp
qed

theorem schema_synthesis_witness:
  "map_sum id schema_required (generate_schema pydantic_stub f_a_b None (Some [''b''])) =
     Inr (Some (VList [VStr ''b''])) \<and>
   rename_schema_fields (VDict [(''type'', VStr ''object'')]) =
     Inr (VDict [(''type_'', VStr ''OBJECT'')]) \<and>
   renamed (VDict [(''type_'', VStr ''OBJECT'')])"
proof -
  have g: "generate_schema pydantic_stub f_a_b None (Some [''b'']) =
      Inr \<lparr>s_name = ''f'', s_description = None,
           s_parameters =
             [(''type'', VStr ''object''),
              (''properties'', VDict [(''a'', VDict [(''type'', VStr ''integer'')]),
                                     (''b'', VDict [(''type'', VStr ''string'')])]),
              (''required'', VList [VStr ''b''])]\<rparr>"
    by (simp add: generate_schema_def pydantic_stub_def f_a_b_def fixed_kind_def
        pydantic_type_def postprocess_arg_def is_nullable_def Let_def)
  have r: "rename_schema_fields (VDict [(''type'', VStr ''object'')]) =
      Inr (VDict [(''type_'', VStr ''OBJECT'')])"
    by (simp add: pop_type_def pop_format_def upper_object)
  show ?thesis
    using schema_synthesis
      [of pydantic_stub f_a_b None "Some [''b'']"
          "\<lparr>s_name = ''f'', s_description = None,
            s_parameters =
              [(''type'', VStr ''object''),
               (''properties'', VDict [(''a'', VDict [(''type'', VStr ''integer'')]),
                                      (''b'', VDict [(''type'', VStr ''string'')])]),
               (''required'', VList [VStr ''b''])]\<rparr>"
          "VDict [(''type'', VStr ''object'')]" "VDict [(''type_'', VStr ''OBJECT'')]"]
      g r
    by simp
qed

text \<open>
  C6, the claim as stated, fails where the caller supplies an empty \<open>required\<close>: it
  is not taken verbatim, the list is inferred as if none had been given.
\<close>

theorem schema_required_counterexample:
  "map_sum id schema_required (generate_schema pydantic_stub f_a_b None (Some [])) =
     Inr (Some (VList [VStr ''a'']))"
  by (simp add: schema_required_def generate_schema_def pydantic_stub_def
      f_a_b_def fixed_kind_def pydantic_type_def postprocess_arg_def is_nullable_def Let_def)

subsection \<open>The function library\<close>

lemma index_declarations_error: "index_declarations fds idx = Inl e \<Longrightarrow> e = ValueError"
  by (induction fds arbitrary: idx) (auto split: if_splits)

lemma index_declarations_append:
  "index_declarations (xs @ ys) idx =
     (case index_declarations xs idx of Inl e \<Rightarrow> Inl e | Inr idx' \<Rightarrow> index_declarations ys idx')"
  by (induction xs arbitrary: idx) auto

lemma index_declarations_duplicate:
  "\<not> distinct (map name fds) \<or> (\<exists>d \<in> set fds. map_of idx (name d) \<noteq> None) \<Longrightarrow>
   index_declarations fds idx = Inl ValueError"
proof (induction fds arbitrary: idx)
  case Nil
  then show ?case by simp
next
  case (Cons fd fds)
  show ?case
  proof (cases "dict_has idx (name fd)")
    case True
    then show ?thesis by simp
  next
    case False
    have "\<not> distinct (map name fds) \<or>
          (\<exists>d \<in> set fds. map_of (AList.update (name fd) fd idx) (name d) \<noteq> None)"
      using Cons.prems False by (auto simp: dict_has_def update_conv')
    then show ?thesis using False Cons.IH by simp
  qed
qed

lemma index_declarations_distinct:
  "distinct (map name fds) \<Longrightarrow> (\<forall>d \<in> set fds. map_of idx (name d) = None) \<Longrightarrow>
   \<exists>idx'. index_declarations fds idx = Inr idx' \<and>
          (\<forall>d \<in> set fds. map_of idx' (name d) = Some d) \<and>
          (\<forall>n. n \<notin> name ` set fds \<longrightarrow> map_of idx' n = map_of idx n)"
proof (induction fds arbitrary: idx)
  case Nil
  then show ?case by simp
next
  case (Cons fd fds)
  let ?idx = "AList.update (name fd) fd idx"
  have "\<forall>d \<in> set fds. map_of ?idx (name d) = None"
    using Cons.prems by (auto simp: update_conv' image_iff)
  with Cons.IH[of ?idx] Cons.prems(1)
  obtain idx' where 1: "index_declarations fds ?idx = Inr idx'"
    and 2: "\<forall>d \<in> set fds. map_of idx' (name d) = Some d"
    and 3: "\<forall>n. n \<notin> name ` set fds \<longrightarrow> map_of idx' n = map_of ?idx n"
    by auto
  have "index_declarations (fd # fds) idx = Inr idx'"
    using 1 Cons.prems(2) by (simp add: dict_has_def)
  moreover have "map_of idx' (name fd) = Some fd"
    using 3 Cons.prems(1) by (simp add: update_conv')
  moreover have "\<forall>n. n \<notin> name ` set (fd # fds) \<longrightarrow> map_of idx' n = map_of idx n"
    using 3 by (simp add: update_conv')
  ultimately show ?case using 2 by auto
qed

lemma index_tools_concat:
  "index_tools ts idx = index_declarations (concat (map function_declarations ts)) idx"
  by (induction ts arbitrary: idx) (auto simp: index_declarations_append split: sum.splits)

lemma try_map_declarations:
  "try_map (make_function_declaration pyd) (map Fd_declaration ds) = Inr ds"
  by (induction ds) auto

lemma concat_singletons:
  "list_all (\<lambda>t. length (function_declarations t) = 1) ts \<Longrightarrow>
   map (\<lambda>t. hd (function_declarations t)) ts = concat (map function_declarations ts)"
proof (induction ts)
  case Nil
  then show ?case by simp
next
  case (Cons t ts)
  then obtain d where "function_declarations t = [d]"
    by (cases "function_declarations t") auto
  with Cons show ?case by simp
qed

lemma library_index:
  assumes "try_map (make_tool pyd) ts = Inr tools"
  shows "map_sum id lib_index (FunctionLibrary_init pyd (Ts_iterable ts)) =
         index_declarations (concat (map function_declarations tools)) []"
proof (cases "length tools > 1 \<and> list_all (\<lambda>t. length (function_declarations t) = 1) tools")
  case True
  let ?ds = "concat (map function_declarations tools)"
  have m: "map (\<lambda>t. Fd_declaration (hd (function_declarations t))) tools = map Fd_declaration ?ds"
  proof -
    have "map (\<lambda>t. Fd_declaration (hd (function_declarations t))) tools =
          map Fd_declaration (map (\<lambda>t. hd (function_declarations t)) tools)"
      by simp
    also have "\<dots> = map Fd_declaration ?ds"
      using concat_singletons[of tools] True by simp
    finally show ?thesis .
  qed
  show ?thesis
  proof (cases "index_declarations ?ds []")
    case (Inl e)
    then show ?thesis
      using assms True m
      by (simp add: FunctionLibrary_init_def Tool_init_def try_map_declarations)
  next
    case (Inr idx)
    then show ?thesis
      using assms True m
      by (simp add: FunctionLibrary_init_def Tool_init_def try_map_declarations)
  qed
next
  case False
  then show ?thesis
    using assms
    by (cases "index_declarations (concat (map function_declarations tools)) []")
       (auto simp: FunctionLibrary_init_def index_tools_concat)
qed


text \<open>
  C7. A library built from two tools fails with \<open>ValueError\<close> (the duplicate-name
  error) when a declaration of one tool has the name of a declaration of the other;
  when all names of the two tools differ it is built, and resolving a declared name, or
  a function call that carries it, gives the declaration of the tool that declares it.
\<close>

theorem function_library_names:
  assumes "make_tool pyd a = Inr t1" and "make_tool pyd b = Inr t2"
  shows "((\<exists>d1 \<in> set (function_declarations t1). \<exists>d2 \<in> set (function_declarations t2).
             name d1 = name d2) \<longrightarrow>
          FunctionLibrary_init pyd (Ts_iterable [a, b]) = Inl ValueError) \<and>
         (distinct (map name (function_declarations t1 @ function_declarations t2)) \<longrightarrow>
          (\<exists>lib. FunctionLibrary_init pyd (Ts_iterable [a, b]) = Inr lib \<and>
             (\<forall>d \<in> set (function_declarations t1 @ function_declarations t2).
                FunctionLibrary_getitem lib (Inl (name d)) = Inr d \<and>
                (\<forall>fc. fc_name fc = name d \<longrightarrow> FunctionLibrary_getitem lib (Inr fc) = Inr d))))"
proof -
  let ?ds = "function_declarations t1 @ function_declarations t2"
  have "try_map (make_tool pyd) [a, b] = Inr [t1, t2]"
    using assms by simp
  then have idx: "map_sum id lib_index (FunctionLibrary_init pyd (Ts_iterable [a, b])) =
      index_declarations ?ds []"
    using library_index[of pyd "[a, b]" "[t1, t2]"] by simp
  show ?thesis
  proof (intro conjI impI)
    assume "\<exists>d1 \<in> set (function_declarations t1). \<exists>d2 \<in> set (function_declarations t2).
              name d1 = name d2"
    then have "\<not> distinct (map name ?ds)"
      by (auto simp: image_iff)
    then have "index_declarations ?ds [] = Inl ValueError"
      by (simp add: index_declarations_duplicate)
    with idx show "FunctionLibrary_init pyd (Ts_iterable [a, b]) = Inl ValueError"
      by (simp add: map_sum_id_Inl_iff)
  next
    assume "distinct (map name ?ds)"
    then obtain idx' where 1: "index_declarations ?ds [] = Inr idx'"
      and 2: "\<forall>d \<in> set ?ds. map_of idx' (name d) = Some d"
      using index_declarations_distinct[of ?ds "[]"] by auto
    from idx 1 obtain lib where 3: "FunctionLibrary_init pyd (Ts_iterable [a, b]) = Inr lib"
      and 4: "lib_index lib = idx'"
      by (auto simp: map_sum_id_Inr_iff)
    have "\<forall>d \<in> set ?ds.
        FunctionLibrary_getitem lib (Inl (name d)) = Inr d \<and>
        (\<forall>fc. fc_name fc = name d \<longrightarrow> FunctionLibrary_getitem lib (Inr fc) = Inr d)"
      using 2 4 by (simp add: FunctionLibrary_getitem_def)
    with 3 show "\<exists>lib. FunctionLibrary_init pyd (Ts_iterable [a, b]) = Inr lib \<and>
             (\<forall>d \<in> set ?ds.
                FunctionLibrary_getitem lib (Inl (name d)) = Inr d \<and>
                (\<forall>fc. fc_name fc = name d \<longrightarrow> FunctionLibrary_getitem lib (Inr fc) = Inr d))"
      by blast
  qed
qed

theorem function_library_names_witness:
  "FunctionLibrary_init pydantic_stub
     (Ts_iterable [Ti_iterable [Fd_declaration (plain_declaration ''f'')],
                   Ti_iterable [Fd_declaration add_one_declaration,
                                Fd_declaration (plain_declaration ''f'')]]) = Inl ValueError \<and>
   resolve_in (FunctionLibrary_init pydantic_stub
     (Ts_iterable [Ti_iterable [Fd_declaration (plain_declaration ''f'')],
                   Ti_iterable [Fd_declaration add_one_declaration,
                                Fd_declaration (plain_declaration ''g'')]])) ''g'' =
     Inr (plain_declaration ''g'')"
proof -
  have a: "make_tool pydantic_stub (Ti_iterable [Fd_declaration (plain_declaration ''f'')]) =
      Inr \<lparr>function_declarations = [plain_declaration ''f''],
           tool_index = [(''f'', plain_declaration ''f'')]\<rparr>"
    by (simp add: Tool_init_def dict_has_def name_def plain_declaration_def)
  have b: "make_tool pydantic_stub
      (Ti_iterable [Fd_declaration add_one_declaration, Fd_declaration (plain_declaration ''f'')]) =
      Inr \<lparr>function_declarations = [add_one_declaration, plain_declaration ''f''],
           tool_index = [(''add_one'', add_one_declaration), (''f'', plain_declaration ''f'')]\<rparr>"
    by (simp add: Tool_init_def dict_has_def name_def plain_declaration_def
        add_one_declaration_def)
  have c: "make_tool pydantic_stub
      (Ti_iterable [Fd_declaration add_one_declaration, Fd_declaration (plain_declaration ''g'')]) =
      Inr \<lparr>function_declarations = [add_one_declaration, plain_declaration ''g''],
           tool_index = [(''add_one'', add_one_declaration), (''g'', plain_declaration ''g'')]\<rparr>"
    by (simp add: Tool_init_def dict_has_def name_def plain_declaration_def
        add_one_declaration_def)
  show ?thesis
    using function_library_names[OF a b] function_library_names[OF a c]
    by (auto simp: resolve_in_def name_def plain_declaration_def add_one_declaration_def)
qed

text \<open>
  \<open>float(n)\<close> is exact up to \<open>2 ^ 53\<close>, so a \<open>Struct\<close> stores such integers, and
  every value that is no integer, with the value they have.
\<close>

lemma bit_length_le: "a < 2 ^ k \<Longrightarrow> bit_length a \<le> k"
proof (induction k arbitrary: a)
  case 0
  then show ?case by simp
next
  case (Suc k)
  have "a div 2 < 2 ^ k"
    using Suc.prems by auto
  from Suc.IH[OF this] show ?case
    by (subst bit_length.simps) simp
qed

lemma round_53_exact: "a < 2 ^ 53 \<Longrightarrow> round_53 a = a"
  using bit_length_le[of a 53] by (simp add: round_53_def)

lemma round_53_boundary: "round_53 9007199254740992 = 9007199254740992"
  by (simp add: round_53_def Let_def)

lemma float_of_int_exact:
  assumes "\<bar>n\<bar> \<le> 2 ^ 53"
  shows "float_of_int n = Inr (of_int n)"
proof -
  have "round_53 (nat \<bar>n\<bar>) = nat \<bar>n\<bar>"
  proof (cases "nat \<bar>n\<bar> < 2 ^ 53")
    case True
    then show ?thesis by (rule round_53_exact)
  next
    case False
    then have "nat \<bar>n\<bar> = 9007199254740992"
      using assms by simp
    then show ?thesis
      using round_53_boundary by simp
  qed
  moreover have "nat \<bar>n\<bar> < 2 ^ 1024"
  proof -
    have "nat \<bar>n\<bar> \<le> 2 ^ 53"
      using assms by simp
    also have "(2::nat) ^ 53 < 2 ^ 1024"
      by simp
    finally show ?thesis .
  qed
  ultimately show ?thesis
    by (cases "n < 0") (auto simp: float_of_int_def Let_def)
qed

lemma struct_value_exact:
  "struct_exact v \<Longrightarrow> struct_value v = Inr (as_floats v)"
  "struct_exact_list vs \<Longrightarrow> struct_values vs = Inr (as_floats_list vs)"
  "struct_exact_fields d \<Longrightarrow> struct_fields d = Inr (as_floats_fields d)"
  by (induction v and vs and d rule: struct_value_struct_values_struct_fields.induct)
     (simp_all add: float_of_int_exact)

text \<open>
  C8 (as amended). Calling the library with a function call whose name resolves: a
  declaration that is not callable gives \<open>None\<close> and no error. A callable one, when
  the call carries an \<open>args\<close> mapping \<open>kw\<close>, is invoked once with \<open>kw\<close> as its
  keyword arguments; when it returns \<open>v\<close>, a result that is no dictionary is wrapped
  as \<open>{"result": v}\<close>, and when a \<open>Struct\<close> can store that mapping the answer is the
  \<open>function_response\<close> part with the name of the call and the stored mapping. What
  is stored is the mapping itself, its integers written as floats, as long as every
  integer in it is at most \<open>2 ^ 53\<close> in magnitude.
\<close>

theorem function_library_call:
  assumes "FunctionLibrary_getitem lib (Inr fc) = Inr decl"
  shows "(\<not> is_callable decl \<longrightarrow> FunctionLibrary_call lib fc lg = (Inr None, lg)) \<and>
         (\<forall>p f kw v r.
            decl = CallableFunctionDeclaration p f \<and> args fc = Some kw \<and> f kw = Inr v \<and>
            struct_fields (case v of VDict m \<Rightarrow> m | _ \<Rightarrow> [(''result'', v)]) = Inr r \<longrightarrow>
            FunctionLibrary_call lib fc lg =
              (Inr (Some (Part_function_response \<lparr>fr_name = fc_name fc, response = r\<rparr>)),
               lg @ [(decl_name p, kw)])) \<and>
         (\<forall>m. struct_exact_fields m \<longrightarrow> struct_fields m = Inr (as_floats_fields m))"
proof (intro conjI allI impI)
  assume "\<not> is_callable decl"
  then show "FunctionLibrary_call lib fc lg = (Inr None, lg)"
    using assms by (cases decl) (simp_all add: FunctionLibrary_call_def)
next
  fix p f kw v r
  assume "decl = CallableFunctionDeclaration p f \<and> args fc = Some kw \<and> f kw = Inr v \<and>
          struct_fields (case v of VDict m \<Rightarrow> m | _ \<Rightarrow> [(''result'', v)]) = Inr r"
  then show "FunctionLibrary_call lib fc lg =
      (Inr (Some (Part_function_response \<lparr>fr_name = fc_name fc, response = r\<rparr>)),
       lg @ [(decl_name p, kw)])"
    using assms
    by (simp add: FunctionLibrary_call_def CallableFunctionDeclaration_call_def
        call_function_def log_call_def)
next
  fix m
  assume "struct_exact_fields m"
  then show "struct_fields m = Inr (as_floats_fields m)"
    by (rule struct_value_exact(3))
qed

theorem function_library_call_witness:
  "FunctionLibrary_call add_one_library \<lparr>fc_name = ''g'', args = Some []\<rparr> [] = (Inr None, []) \<and>
   FunctionLibrary_call add_one_library
       \<lparr>fc_name = ''add_one'', args = Some [(''x'', VFloat 1)]\<rparr> [] =
     (Inr (Some (Part_function_response
        \<lparr>fr_name = ''add_one'', response = [(''result'', VFloat 2)]\<rparr>)),
      [(''add_one'', [(''x'', VFloat 1)])]) \<and>
   struct_fields [(''result'', VInt 2)] = Inr [(''result'', VFloat 2)]"
proof -
  have g: "FunctionLibrary_getitem add_one_library (Inr \<lparr>fc_name = ''g'', args = Some []\<rparr>) =
      Inr (plain_declaration ''g'')"
    by (simp add: FunctionLibrary_getitem_def add_one_library_def)
  have f: "FunctionLibrary_getitem add_one_library
      (Inr \<lparr>fc_name = ''add_one'', args = Some [(''x'', VFloat 1)]\<rparr>) = Inr add_one_declaration"
    by (simp add: FunctionLibrary_getitem_def add_one_library_def)
  show ?thesis
    using function_library_call[OF g, of "[]"] function_library_call[OF f, of "[]"]
    by (simp add: plain_declaration_def add_one_declaration_def add_one_def float_of_int_exact)
qed

text \<open>
  C8, the claim as stated, fails at two calls that resolve to a callable declaration.
  The callable \<open>beyond_double\<close> returns \<open>2 ^ 53 + 1\<close>; the part that comes back does
  not carry \<open>{"result": 2 ^ 53 + 1}\<close> but the \<open>Struct\<close> made of it, whose number is
  the double \<open>2 ^ 53\<close>. And for a call to \<open>add_one\<close> whose \<open>args\<close> was never set the
  library raises \<open>TypeError\<close> and the callable is not invoked.
\<close>

theorem function_library_call_counterexample:
  "FunctionLibrary_getitem (single_library ''big'' beyond_double)
       (Inr \<lparr>fc_name = ''big'', args = Some []\<rparr>) =
     Inr (CallableFunctionDeclaration
            \<lparr>decl_name = ''big'', decl_description = [], decl_parameters = VNone\<rparr>
            beyond_double) \<and>
   beyond_double [] = Inr (VInt 9007199254740993) \<and>
   FunctionLibrary_call (single_library ''big'' beyond_double)
       \<lparr>fc_name = ''big'', args = Some []\<rparr> [] =
     (Inr (Some (Part_function_response
        \<lparr>fr_name = ''big'', response = [(''result'', VFloat 9007199254740992)]\<rparr>)),
      [(''big'', [])]) \<and>
   FunctionLibrary_getitem add_one_library (Inr \<lparr>fc_name = ''add_one'', args = None\<rparr>) =
     Inr add_one_declaration \<and>
   is_callable add_one_declaration \<and>
   FunctionLibrary_call add_one_library \<lparr>fc_name = ''add_one'', args = None\<rparr> [] =
     (Inl TypeError, [])"
  by (simp add: FunctionLibrary_getitem_def FunctionLibrary_call_def single_library_def
      beyond_double_def add_one_library_def add_one_declaration_def
      CallableFunctionDeclaration_call_def call_function_def log_call_def
      float_of_int_def round_53_def Let_def)

subsection \<open>The chat session\<close>

text \<open>
  C10. In an idle session whose committed history has fewer than two entries,
  \<open>rewind\<close> raises \<open>IndexError\<close>: it returns no pair, and the session is as it was.
\<close>

theorem rewind_underflow:
  assumes "priv_last s = None" and "length (priv_history s) < 2"
  shows "rewind s = (Inl IndexError, s)"
proof -
  have "list_pop (priv_history s) (- 2) = Inl IndexError"
    using assms(2) by (simp add: list_pop_def Let_def)
  then show ?thesis
    using assms(1) by (simp add: rewind_def)
qed

theorem rewind_underflow_witness:
  "rewind \<lparr>model = demo_model, priv_history = [question], priv_last = None,
           enable_automatic_function_calling = False\<rparr> =
     (Inl IndexError,
      \<lparr>model = demo_model, priv_history = [question], priv_last = None,
       enable_automatic_function_calling = False\<rparr>)"
  using rewind_underflow
    [of "\<lparr>model = demo_model, priv_history = [question], priv_last = None,
          enable_automatic_function_calling = False\<rparr>"]
  by simp

lemma rewind_committed:
  assumes "priv_last s = None" and "priv_history s = h @ [a, b]"
  shows "rewind s = (Inr (a, b), s\<lparr>priv_history := h\<rparr>)"
proof -
  have 1: "list_pop (h @ [a, b]) (- 2) = Inr (a, h @ [b])"
    by (simp add: list_pop_def Let_def nth_append)
  have 2: "list_pop (h @ [b]) (- 1) = Inr (b, h)"
    by (simp add: list_pop_def Let_def nth_append)
  show ?thesis
    using assms 1 2 by (simp add: rewind_def)
qed

lemma r_candidates_Inr:
  "r_candidates r = Inr cs \<longleftrightarrow> r_done r \<and> candidates (r_result r) = cs"
  by (auto simp: r_candidates_def)

lemma history_broken:
  assumes "priv_last s = Some (snt, r)" and "r_candidates r = Inr (c # cs)"
    and "\<not> finish_ok (finish_reason c) \<or> r_error r \<noteq> None"
  shows "\<exists>r'. history s = (Inl BrokenResponseError, s\<lparr>priv_last := Some (snt, r')\<rparr>) \<and>
              r_candidates r' = r_candidates r \<and> r_error r' \<noteq> None"
  using assms by (auto simp: history_def Let_def r_candidates_def split: if_splits)

lemma reads_broken:
  assumes "priv_last s = Some (snt, r)" and "r_candidates r = Inr (c # cs)"
    and "\<not> finish_ok (finish_reason c) \<or> r_error r \<noteq> None"
  shows "\<exists>r'. reads n s = s\<lparr>priv_last := Some (snt, r')\<rparr> \<and>
              r_candidates r' = r_candidates r \<and>
              (\<not> finish_ok (finish_reason c) \<or> r_error r' \<noteq> None)"
  using assms
proof (induction n arbitrary: s r)
  case 0
  then show ?case by (intro exI[of _ r]) simp
next
  case (Suc n)
  from history_broken[OF Suc.prems] obtain r1 where
    h: "history s = (Inl BrokenResponseError, s\<lparr>priv_last := Some (snt, r1)\<rparr>)"
    and r1: "r_candidates r1 = r_candidates r" "r_error r1 \<noteq> None"
    by blast
  let ?s1 = "s\<lparr>priv_last := Some (snt, r1)\<rparr>"
  have "\<exists>r'. reads n ?s1 = ?s1\<lparr>priv_last := Some (snt, r')\<rparr> \<and>
              r_candidates r' = r_candidates r1 \<and>
              (\<not> finish_ok (finish_reason c) \<or> r_error r' \<noteq> None)"
    using Suc.prems(2) r1 by (intro Suc.IH) simp_all
  then show ?case
    using h r1 by auto
qed

text \<open>
  C5. A session holds a pending turn whose response has a single candidate, and that
  candidate finished for another reason than unspecified, stop or max-tokens. Then
  after any number \<open>n\<close> of reads of \<open>history\<close> the next read raises
  \<open>BrokenResponseError\<close> and leaves a \<open>StopCandidateException\<close> stored in the
  pending response, the last response can still be inspected, and the committed
  history is still the one before the turn; \<open>rewind\<close> returns the pending pair and
  clears it, and the read of \<open>history\<close> after that returns the committed history of
  before the turn. The candidates of the pending response are what the property
  \<open>candidates\<close> gives.
\<close>

theorem broken_conversation:
  assumes "priv_last s = Some (snt, r)" and "r_candidates r = Inr [c]"
    and "\<not> finish_ok (finish_reason c)"
  shows "fst (history (reads n s)) = Inl BrokenResponseError \<and>
         map_option (\<lambda>p. r_error (snd p)) (priv_last (snd (history (reads n s)))) =
           Some (Some StopCandidateException) \<and>
         last_response (reads n s) \<noteq> None \<and>
         priv_history (reads n s) = priv_history s \<and>
         fst (rewind (reads n s)) = Inr (snt, c_content c) \<and>
         history (snd (rewind (reads n s))) =
           (Inr (priv_history s), snd (rewind (reads n s))) \<and>
         snd (rewind (reads n s)) = s\<lparr>priv_last := None\<rparr>"
proof -
  from reads_broken[OF assms(1,2), of n] assms(3) obtain r' where
    1: "reads n s = s\<lparr>priv_last := Some (snt, r')\<rparr>" and 2: "r_candidates r' = Inr [c]"
    using assms(2) by auto
  have "history (reads n s) =
      (Inl BrokenResponseError,
       s\<lparr>priv_last := Some (snt, r'\<lparr>r_error := Some StopCandidateException\<rparr>)\<rparr>)"
    using 1 2 assms(3) by (simp add: history_def Let_def)
  moreover have "last_response (reads n s) \<noteq> None"
    using 1 by (simp add: last_response_def)
  moreover have "rewind (reads n s) = (Inr (snt, c_content c), s\<lparr>priv_last := None\<rparr>)"
    using 1 2 by (simp add: rewind_def)
  moreover have "history (s\<lparr>priv_last := None\<rparr>) = (Inr (priv_history s), s\<lparr>priv_last := None\<rparr>)"
    by (simp add: history_def)
  ultimately show ?thesis
    using 1 by simp
qed

theorem broken_conversation_witness:
  "fst (history (reads 2 broken_session)) = Inl BrokenResponseError \<and>
   fst (rewind (reads 2 broken_session)) =
     Inr (\<lparr>role = ''user'', parts = [Part_text ''more'']\<rparr>, \<lparr>role = [], parts = []\<rparr>) \<and>
   fst (history (snd (rewind (reads 2 broken_session)))) = Inr [question, answer]"
proof -
  have 1: "priv_last broken_session =
      Some (\<lparr>role = ''user'', parts = [Part_text ''more'']\<rparr>, stopped_response)"
    by (simp add: broken_session_def)
  have 2: "r_candidates stopped_response =
      Inr [\<lparr>finish_reason = SAFETY, c_content = \<lparr>role = [], parts = []\<rparr>\<rparr>]"
    by (simp add: stopped_response_def from_response_def r_candidates_def)
  have 3: "\<not> finish_ok (finish_reason \<lparr>finish_reason = SAFETY, c_content = \<lparr>role = [], parts = []\<rparr>\<rparr>)"
    by (simp add: finish_ok_def)
  have 4: "priv_history broken_session = [question, answer]"
    by (simp add: broken_session_def)
  show ?thesis
    using broken_conversation[OF 1 2 3, of 2] 4
    by (simp add: history_def)
qed

subsection \<open>Automatic function calling\<close>

lemma try_map_strict_contents: "try_map strict_to_content (map PyContent h) = Inr h"
  by (induction h) (simp_all add: strict_to_content_def)

lemma to_contents_contents: "to_contents (PyList (map PyContent h)) = Inr h"
  by (simp add: to_contents_def try_map_strict_contents)

lemma prepare_request_contents:
  assumes "h \<noteq> []"
    and "get_tools_lib ext m tools = Inr tools_lib"
    and "merge_tool_config m tcin = Inr tc"
    and "to_generation_config_dict ext gcin = Inr gc"
    and "to_easy_safety_dict ext ssin = Inr sd"
    and "normalize_safety_settings ext (dict_update_all (priv_safety_settings m) sd) = Inr nss"
  shows "prepare_request ext m (PyList (map PyContent h)) gcin ssin tools tcin =
     Inr \<lparr>rq_model = priv_model_name m,
          rq_contents = h,
          rq_generation_config = dict_update_all (priv_generation_config m) gc,
          rq_safety_settings = nss,
          rq_tools = map_option FunctionLibrary_to_proto tools_lib,
          rq_tool_config = tc,
          rq_system_instructions = priv_system_instructions m\<rparr>"
  using assms by (simp add: prepare_request_def to_contents_contents)

lemma generate_content_requests:
  assumes "generate_content ext m c gc ss st t tc cl = (res, cl')"
  shows "(requests cl' = requests cl) \<or>
         (\<exists>rq. prepare_request ext m c gc ss t tc = Inr rq \<and>
               requests cl' = requests cl @ [(rq, st)])"
  using assms
  by (auto simp: generate_content_def client_call_def split: sum.splits list.splits)

lemma generate_content_next:
  assumes "prepare_request ext m c gc ss t tc = Inr rq" and "script cl = Inr raw # rest"
  shows "generate_content ext m c gc ss st t tc cl =
     (Inr (if st then from_iterator raw else from_response raw),
      \<lparr>script = rest, requests = requests cl @ [(rq, st)]\<rparr>)"
  using assms by (simp add: generate_content_def client_call_def)

lemma handle_afc_requests:
  "handle_afc ext m r h gc ss stream lib cl lg = (res, cl', lg') \<Longrightarrow>
   \<exists>new. requests cl' = requests cl @ new \<and> list_all (continuation_of ext m gc ss stream lib) new"
proof (induction ext m r h gc ss stream lib cl lg arbitrary: res cl' lg' rule: handle_afc.induct)
  case (1 ext m r h gc ss stream lib cl lg)
  note P = "1.prems"[unfolded handle_afc.simps[of ext m r h gc ss stream lib cl lg]]
  show ?case
  proof (cases "get_function_calls r")
    case (Inl e)
    then show ?thesis using P by (simp add: Let_def)
  next
    case fcs: (Inr function_calls)
    show ?thesis
    proof (cases "function_calls = []")
      case True
      then show ?thesis using P fcs by (simp add: Let_def)
    next
      case ne: False
      show ?thesis
      proof (cases "all_callable lib function_calls")
        case (Inl e)
        then show ?thesis using P fcs ne by (simp add: Let_def)
      next
        case ok: (Inr b)
        show ?thesis
        proof (cases b)
          case False
          then show ?thesis using P fcs ne ok by (simp add: Let_def)
        next
          case True
          let ?h1 = "h @ [c_content (hd (candidates (r_result r)))]"
          obtain frs log1 where ca: "call_all lib function_calls lg = (frs, log1)"
            by (cases "call_all lib function_calls lg")
          show ?thesis
          proof (cases frs)
            case (Inl e)
            then show ?thesis using P fcs ne ok True ca by (simp add: Let_def)
          next
            case parts: (Inr function_response_parts)
            let ?h2 = "?h1 @ [\<lparr>role = USER_ROLE, parts = function_response_parts\<rparr>]"
            obtain g cl1 where gc1: "generate_content ext m (PyList (map PyContent ?h2)) gc ss stream
                (Some (Li_library lib)) None cl = (g, cl1)"
              by (cases "generate_content ext m (PyList (map PyContent ?h2)) gc ss stream
                (Some (Li_library lib)) None cl")
            from generate_content_requests[OF gc1]
            have step: "\<exists>new. requests cl1 = requests cl @ new \<and>
                list_all (continuation_of ext m gc ss stream lib) new"
            proof
              assume "requests cl1 = requests cl"
              then show ?thesis by (intro exI[of _ "[]"]) simp
            next
              assume "\<exists>rq. prepare_request ext m (PyList (map PyContent ?h2)) gc ss
                  (Some (Li_library lib)) None = Inr rq \<and> requests cl1 = requests cl @ [(rq, stream)]"
              then obtain rq where rq: "prepare_request ext m (PyList (map PyContent ?h2)) gc ss
                  (Some (Li_library lib)) None = Inr rq"
                and rqs: "requests cl1 = requests cl @ [(rq, stream)]"
                by blast
              from rq have "continuation_of ext m gc ss stream lib (rq, stream)"
                unfolding continuation_of_def fst_conv snd_conv
                by (intro conjI exI[of _ ?h2]) simp_all
              with rqs show ?thesis
                by (intro exI[of _ "[(rq, stream)]"]) simp
            qed
            show ?thesis
            proof (cases g)
              case (Inl e)
              then show ?thesis
                using P fcs ne ok True ca parts gc1 step by (simp add: Let_def)
            next
              case r': (Inr r')
              show ?thesis
              proof (cases "check_response r' stream")
                case (Inl e)
                then show ?thesis
                  using P fcs ne ok True ca parts gc1 r' step by (simp add: Let_def)
              next
                case (Inr u)
                have rec: "handle_afc ext m r' ?h2 gc ss stream lib cl1 log1 = (res, cl', lg')"
                  using P fcs ne ok True ca parts gc1 r' Inr by (simp add: Let_def)
                have "\<exists>new. requests cl' = requests cl1 @ new \<and>
                    list_all (continuation_of ext m gc ss stream lib) new"
                  using "1.IH"[OF fcs ne ok _ refl ca[symmetric] parts refl refl gc1[symmetric] r' Inr rec]
                    True by simp
                with step show ?thesis by auto
              qed
            qed
          qed
        qed
      qed
    qed
  qed
qed


lemma function_calls_of_filter:
  "function_calls_of ps = filter function_call_bool (List.map_filter function_call_of ps)"
proof (induction ps)
  case Nil
  then show ?case by (simp add: function_calls_of_def List.map_filter_simps)
next
  case (Cons p ps)
  then show ?case
    by (cases p) (simp_all add: function_calls_of_def List.map_filter_simps)
qed

lemma get_function_calls_single:
  assumes "candidates raw = [cand]"
  shows "get_function_calls (from_response raw) =
         Inr (filter function_call_bool
                (List.map_filter function_call_of (parts (c_content cand))))"
  using assms
  by (simp add: get_function_calls_def from_response_def r_candidates_def
      function_calls_of_filter)

lemma check_response_ok:
  assumes "block_reason raw = 0" and "candidates raw = cand # cs" and "finish_ok (finish_reason cand)"
  shows "check_response (from_response raw) stream = Inr ()"
  using assms by (simp add: check_response_def from_response_def r_candidates_def)

lemma get_tools_lib_library:
  "get_tools_lib ext m (Some (Li_library lib)) = Inr (Some lib)"
  by (simp add: get_tools_lib_def to_function_library_def)

lemma history_set_contents:
  "history_set (PyList (map PyContent h)) s = (Inr (), s\<lparr>priv_history := h, priv_last := None\<rparr>)"
  by (simp add: history_set_def to_contents_contents)

lemma afc_two_rounds:
  assumes afc: "enable_automatic_function_calling (chat w)"
    and hist: "history (chat w) = (Inr h0, s1)"
    and tools: "get_tools_lib ext (model (chat w)) tools = Inr (Some lib)"
    and content: "to_content x = Inr c0"
      "c = (if role c0 = [] then c0\<lparr>role := USER_ROLE\<rparr> else c0)"
    and gc: "to_generation_config_dict ext gcin = Inr gc" "candidate_count_exceeds gc = Inr False"
      "to_generation_config_dict ext (Some gc) = Inr gc'"
    and ss: "to_easy_safety_dict ext ssin = Inr sd"
      "normalize_safety_settings ext
         (dict_update_all (priv_safety_settings (model (chat w))) sd) = Inr nss"
    and tc: "merge_tool_config (model (chat w)) tcin = Inr tc0"
    and script: "script (client w) = Inr r1 # Inr r2 # rest"
    and r1: "block_reason r1 = 0" "candidates r1 = [cand1]" "finish_ok (finish_reason cand1)"
      "List.map_filter function_call_of (parts (c_content cand1)) = [fc]"
      "function_call_bool fc"
    and r2: "block_reason r2 = 0" "candidates r2 = [cand2]" "finish_ok (finish_reason cand2)"
      "List.map_filter function_call_of (parts (c_content cand2)) = []"
    and decl: "FunctionLibrary_getitem lib (Inr fc) = Inr (CallableFunctionDeclaration p f)"
      "args fc = Some kw" "f kw = Inr v"
      "struct_fields (case v of VDict d \<Rightarrow> d | _ \<Rightarrow> [(''result'', v)]) = Inr resp"
    and send: "send = \<lparr>role = USER_ROLE,
        parts = [Part_function_response \<lparr>fr_name = fc_name fc, response = resp\<rparr>]\<rparr>"
    and rq: "rq = \<lparr>rq_model = priv_model_name (model (chat w)),
          rq_contents = [],
          rq_generation_config = dict_update_all (priv_generation_config (model (chat w))) gc',
          rq_safety_settings = nss,
          rq_tools = Some (FunctionLibrary_to_proto lib),
          rq_tool_config = tc0,
          rq_system_instructions = priv_system_instructions (model (chat w))\<rparr>"
  shows "send_message ext x gcin ssin False tools tcin w =
     (Inr (from_response r2),
      \<lparr>chat = s1\<lparr>priv_history := h0 @ [c, c_content cand1],
                       priv_last := Some (send, from_response r2)\<rparr>,
       client = \<lparr>script = rest,
                 requests = requests (client w) @
                   [(rq\<lparr>rq_contents := h0 @ [c]\<rparr>, False),
                    (rq\<lparr>rq_contents := h0 @ [c, c_content cand1, send],
                        rq_tool_config := priv_tool_config (model (chat w))\<rparr>, False)]\<rparr>,
       calls = calls w @ [(decl_name p, kw)]\<rparr>)"
proof -
  let ?s = "chat w" and ?m = "model (chat w)"
  let ?hc = "h0"
  let ?h = "?hc @ [c]"
  let ?hw = "?h @ [c_content cand1, send]"
  let ?rqa = "rq\<lparr>rq_contents := ?h\<rparr>"
  let ?rqb = "rq\<lparr>rq_contents := ?hw, rq_tool_config := priv_tool_config ?m\<rparr>"
  let ?cla = "\<lparr>script = Inr r2 # rest, requests = requests (client w) @ [(?rqa, False)]\<rparr>"
  let ?clb = "\<lparr>script = rest, requests = requests (client w) @ [(?rqa, False), (?rqb, False)]\<rparr>"
  let ?lg = "calls w @ [(decl_name p, kw)]"
  have p0: "prepare_request ext ?m (PyList (map PyContent ?h)) (Some gc) ssin
      (Some (Li_library lib)) tcin = Inr ?rqa"
    using prepare_request_contents[OF _ get_tools_lib_library tc gc(3) ss, of ?h lib]
    by (simp add: rq)
  have g0: "generate_content ext ?m (PyList (map PyContent ?h)) (Some gc) ssin False
      (Some (Li_library lib)) tcin (client w) = (Inr (from_response r1), ?cla)"
    using generate_content_next[OF p0 script] by simp
  have mt: "merge_tool_config ?m None = Inr (priv_tool_config ?m)"
    by (simp add: merge_tool_config_def)
  have p1: "prepare_request ext ?m (PyList (map PyContent ?hw)) (Some gc) ssin
      (Some (Li_library lib)) None = Inr ?rqb"
    using prepare_request_contents[OF _ get_tools_lib_library mt gc(3) ss, of ?hw lib]
    by (simp add: rq)
  have g1: "generate_content ext ?m (PyList (map PyContent ?hw)) (Some gc) ssin False
      (Some (Li_library lib)) None ?cla = (Inr (from_response r2), ?clb)"
    using generate_content_next[OF p1, of ?cla r2 rest False] by simp
  have fcs1: "get_function_calls (from_response r1) = Inr [fc]"
    using get_function_calls_single[OF r1(2)] r1(4,5) by simp
  have fcs2: "get_function_calls (from_response r2) = Inr []"
    using get_function_calls_single[OF r2(2)] r2(4) by simp
  have ac: "all_callable lib [fc] = Inr True"
    using decl(1) by simp
  have ca: "call_all lib [fc] (calls w) = (Inr (parts send), ?lg)"
    using decl
    by (simp add: FunctionLibrary_call_def CallableFunctionDeclaration_call_def
        call_function_def log_call_def send)
  have round2: "handle_afc ext ?m (from_response r2) ?hw (Some gc) ssin False lib ?clb ?lg =
      (Inr (?h @ [c_content cand1], send, from_response r2), ?clb, ?lg)"
    by (subst handle_afc.simps) (simp add: fcs2 unpack_last_def butlast_append)
  have send_eq: "\<lparr>role = USER_ROLE, parts = parts send\<rparr> = send"
    by (simp add: send)
  have hd1: "hd (candidates (r_result (from_response r1))) = cand1"
    using r1(2) by (simp add: from_response_def)
  have round1: "handle_afc ext ?m (from_response r1) ?h (Some gc) ssin False lib ?cla (calls w) =
      (Inr (?h @ [c_content cand1], send, from_response r2), ?clb, ?lg)"
    apply (subst handle_afc.simps)
    using g1 round2
    apply (simp add: fcs1 ac ca Let_def send_eq hd1 check_response_ok[OF r2(1,2,3)]
          del: all_callable.simps call_all.simps)
    done
  show ?thesis
    unfolding send_message_def Let_def
    using afc tools content hist gc(1,2) g0 check_response_ok[OF r1(1,2,3)] round1
    by (simp add: history_set_contents)
qed


lemma prepare_request_fields:
  assumes "prepare_request ext m c gc ss t tc = Inr rq"
  shows "\<exists>lib g sd. get_tools_lib ext m t = Inr lib \<and>
      rq_tools rq = map_option FunctionLibrary_to_proto lib \<and>
      merge_tool_config m tc = Inr (rq_tool_config rq) \<and>
      to_generation_config_dict ext gc = Inr g \<and>
      rq_generation_config rq = dict_update_all (priv_generation_config m) g \<and>
      to_easy_safety_dict ext ss = Inr sd \<and>
      normalize_safety_settings ext (dict_update_all (priv_safety_settings m) sd) =
        Inr (rq_safety_settings rq)"
  using assms by (auto simp: prepare_request_def split: if_splits sum.splits)

lemma continuation_of_request:
  assumes "prepare_request ext m c gc ss (Some (Li_library lib)) tc = Inr rq0"
    and "continuation_of ext m gc ss stream lib p"
  shows "continuation_request m (rq0, stream) p"
proof -
  from assms(2) obtain h where
    p: "prepare_request ext m (PyList (map PyContent h)) gc ss (Some (Li_library lib)) None = Inr (fst p)"
    and st: "snd p = stream"
    by (auto simp: continuation_of_def)
  from prepare_request_fields[OF assms(1)] prepare_request_fields[OF p]
  show ?thesis
    using st by (auto simp: continuation_request_def get_tools_lib_library merge_tool_config_def)
qed

lemma generate_content_Inr:
  assumes "generate_content ext m c gc ss st t tc cl = (Inr r, cl')"
  shows "\<exists>rq. prepare_request ext m c gc ss t tc = Inr rq \<and> requests cl' = requests cl @ [(rq, st)]"
  using assms
  by (auto simp: generate_content_def client_call_def split: sum.splits list.splits)

lemma generate_content_Inl:
  assumes "generate_content ext m c gc ss st t tc cl = (Inl e, cl')"
  shows "requests cl' = requests cl \<or> (\<exists>rq. requests cl' = requests cl @ [(rq, st)])"
  using assms
  by (auto simp: generate_content_def client_call_def split: sum.splits list.splits)

text \<open>
  The requests one \<open>send_message\<close> issues: every request after the first (each
  continuation round of the loop) agrees with the first as \<open>continuation_request\<close>
  says; its tool configuration is the model's own, as \<open>_handle_afc\<close> passes none.
\<close>

lemma send_message_requests:
  assumes "send_message ext x gcin ssin stream tools tcin w = (res, w')"
  shows "\<exists>new. requests (client w') = requests (client w) @ new \<and>
     list_all (continuation_request (model (chat w)) (hd new)) (tl new)"
proof -
  let ?s = "chat w" and ?m = "model (chat w)"
  note S = assms[unfolded send_message_def Let_def]
  have triv: "requests (client w') = requests (client w) \<Longrightarrow> ?thesis"
    by (intro exI[of _ "[]"]) simp
  have one: "\<And>p. requests (client w') = requests (client w) @ [p] \<Longrightarrow> ?thesis"
    by (intro exI[of _ "[p]" for p]) simp
  show ?thesis
  proof (cases "enable_automatic_function_calling ?s \<and> stream")
    case True
    then show ?thesis using S triv by auto
  next
    case nafc: False
    show ?thesis
    proof (cases "get_tools_lib ext ?m tools")
      case (Inl e)
      then show ?thesis using S nafc triv by auto
    next
      case tl: (Inr tools_lib)
      show ?thesis
      proof (cases "to_content x")
        case (Inl e)
        then show ?thesis using S nafc tl triv by auto
      next
        case c0: (Inr c0)
        define c where "c = (if role c0 = [] then c0\<lparr>role := USER_ROLE\<rparr> else c0)"
        obtain hr s1 where hist: "history ?s = (hr, s1)"
          by (cases "history ?s")
        show ?thesis
        proof (cases hr)
          case (Inl e)
          then show ?thesis using S nafc tl c0 hist triv by auto
        next
          case h0: (Inr h0)
          show ?thesis
          proof (cases "to_generation_config_dict ext gcin")
            case (Inl e)
            then show ?thesis using S nafc tl c0 hist h0 triv by auto
          next
            case gc: (Inr gc)
            show ?thesis
            proof (cases "candidate_count_exceeds gc")
              case (Inl e)
              then show ?thesis using S nafc tl c0 hist h0 gc triv by auto
            next
              case ex: (Inr exceeds)
              show ?thesis
              proof (cases exceeds)
                case True
                then show ?thesis using S nafc tl c0 hist h0 gc ex triv by auto
              next
                case nex: False
                obtain g cl where g0: "generate_content ext ?m (PyList (map PyContent (h0 @ [c])))
                    (Some gc) ssin stream (map_option Li_library tools_lib) tcin (client w) = (g, cl)"
                  by (cases "generate_content ext ?m (PyList (map PyContent (h0 @ [c])))
                    (Some gc) ssin stream (map_option Li_library tools_lib) tcin (client w)")
                show ?thesis
                proof (cases g)
                  case (Inl e)
                  with generate_content_Inl[of ext ?m _ "Some gc" ssin stream _ tcin "client w" e cl] g0
                  have "requests cl = requests (client w) \<or>
                      (\<exists>rq. requests cl = requests (client w) @ [(rq, stream)])"
                    by simp
                  moreover have "client w' = cl"
                    using S nafc tl c0 hist h0 gc ex nex g0 Inl by (auto simp: c_def)
                  ultimately show ?thesis using triv one by auto
                next
                  case r: (Inr r)
                  from generate_content_Inr[of ext ?m _ "Some gc" ssin stream _ tcin "client w" r cl] g0 r
                  obtain rq0 where p0: "prepare_request ext ?m (PyList (map PyContent (h0 @ [c])))
                      (Some gc) ssin (map_option Li_library tools_lib) tcin = Inr rq0"
                    and rq0: "requests cl = requests (client w) @ [(rq0, stream)]"
                    by auto
                  show ?thesis
                  proof (cases "check_response r stream")
                    case (Inl e)
                    have "client w' = cl"
                      using S nafc tl c0 hist h0 gc ex nex g0 r Inl by (auto simp: c_def)
                    then show ?thesis using rq0 one by auto
                  next
                    case chk: (Inr u)
                    show ?thesis
                    proof (cases "if enable_automatic_function_calling ?s then tools_lib else None")
                      case None
                      have "client w' = cl"
                        using S nafc tl c0 hist h0 gc ex nex g0 r chk None by (auto simp: c_def)
                      then show ?thesis using rq0 one by auto
                    next
                      case (Some lib)
                      then have lib: "tools_lib = Some lib"
                        by (auto split: if_splits)
                      obtain a cl2 log2 where afc: "handle_afc ext ?m r (h0 @ [c]) (Some gc) ssin stream
                          lib cl (calls w) = (a, cl2, log2)"
                        by (cases "handle_afc ext ?m r (h0 @ [c]) (Some gc) ssin stream
                          lib cl (calls w)") auto
                      from handle_afc_requests[OF afc] obtain new where
                        new: "requests cl2 = requests cl @ new"
                          "list_all (continuation_of ext ?m (Some gc) ssin stream lib) new"
                        by blast
                      have "list_all (continuation_request ?m (rq0, stream)) new"
                        using new(2) continuation_of_request[OF p0[unfolded lib option.map]]
                        by (simp add: list_all_iff)
                      moreover have "client w' = cl2"
                        using S nafc tl c0 hist h0 gc ex nex g0 r chk Some afc
                        by (cases a) (auto simp: c_def split: prod.splits sum.splits)
                      ultimately show ?thesis
                        using rq0 new(1) by (intro exI[of _ "(rq0, stream) # new"]) simp
                    qed
                  qed
                qed
              qed
            qed
          qed
        qed
      qed
    qed
  qed
qed

text \<open>
  C2 (as amended). The requests one \<open>send_message\<close> issues: every request after the
  first (each continuation round of the loop) has the generation configuration, the
  safety settings and the \<open>stream\<close> flag of the first, and it has the tool
  declarations of the first: they are present in every round.
\<close>

theorem afc_continuation_requests:
  assumes "send_message ext x gcin ssin stream tools tcin w = (res, w')"
  shows "\<exists>new. requests (client w') = requests (client w) @ new \<and>
     list_all (same_overrides_and_tools (hd new)) (tl new)"
proof -
  from send_message_requests[OF assms] obtain new where
    1: "requests (client w') = requests (client w) @ new"
    and 2: "list_all (continuation_request (model (chat w)) (hd new)) (tl new)"
    by blast
  from 2 have "list_all (same_overrides_and_tools (hd new)) (tl new)"
    unfolding list_all_iff continuation_request_def same_overrides_and_tools_def
    by blast
  with 1 show ?thesis by blast
qed

lemma afc_world_facts:
  "enable_automatic_function_calling (chat afc_world)"
  "history (chat afc_world) = (Inr [question, answer], chat afc_world)"
  "get_tools_lib plain_externals (model (chat afc_world)) None = Inr (Some add_one_library)"
  "to_content (PyStr ''add one to 1'') = Inr \<lparr>role = [], parts = [Part_text ''add one to 1'']\<rparr>"
  "ask = (if role \<lparr>role = [], parts = [Part_text ''add one to 1'']\<rparr> = []
          then \<lparr>role = [], parts = [Part_text ''add one to 1'']\<rparr>\<lparr>role := USER_ROLE\<rparr>
          else \<lparr>role = [], parts = [Part_text ''add one to 1'']\<rparr>)"
  "to_generation_config_dict plain_externals None = Inr []"
  "candidate_count_exceeds [] = Inr False"
  "to_generation_config_dict plain_externals (Some []) = Inr []"
  "to_easy_safety_dict plain_externals None = Inr []"
  "normalize_safety_settings plain_externals
     (dict_update_all (priv_safety_settings (model (chat afc_world))) []) = Inr (VDict [])"
  "merge_tool_config (model (chat afc_world)) None = Inr None"
  "script (client afc_world) = Inr call_response # Inr text_response # []"
  by (simp_all add: afc_world_def get_tools_lib_def demo_model_def to_content_def ask_def
      USER_ROLE_def plain_externals_def candidate_count_exceeds_def dict_update_all_def
      merge_tool_config_def history_def)

lemma call_response_facts:
  "block_reason call_response = 0"
  "candidates call_response = [\<lparr>finish_reason = STOP, c_content = call_content\<rparr>]"
  "finish_ok (finish_reason \<lparr>finish_reason = STOP, c_content = call_content\<rparr>)"
  "List.map_filter function_call_of
     (parts (c_content \<lparr>finish_reason = STOP, c_content = call_content\<rparr>)) =
   [\<lparr>fc_name = ''add_one'', args = Some [(''x'', VFloat 1)]\<rparr>]"
  "function_call_bool \<lparr>fc_name = ''add_one'', args = Some [(''x'', VFloat 1)]\<rparr>"
  by (simp_all add: call_response_def call_content_def finish_ok_def List.map_filter_def
      function_call_bool_def)

lemma text_response_facts:
  "block_reason text_response = 0"
  "candidates text_response =
     [\<lparr>finish_reason = STOP, c_content = \<lparr>role = [], parts = [Part_text ''2'']\<rparr>\<rparr>]"
  "finish_ok (finish_reason
     \<lparr>finish_reason = STOP, c_content = \<lparr>role = [], parts = [Part_text ''2'']\<rparr>\<rparr>)"
  "List.map_filter function_call_of
     (parts (c_content
        \<lparr>finish_reason = STOP, c_content = \<lparr>role = [], parts = [Part_text ''2'']\<rparr>\<rparr>)) = []"
  by (simp_all add: text_response_def finish_ok_def List.map_filter_def)

lemma add_one_facts:
  "FunctionLibrary_getitem add_one_library
     (Inr \<lparr>fc_name = ''add_one'', args = Some [(''x'', VFloat 1)]\<rparr>) =
     Inr (CallableFunctionDeclaration
            \<lparr>decl_name = ''add_one'', decl_description = [], decl_parameters = VNone\<rparr> add_one)"
  "args \<lparr>fc_name = ''add_one'', args = Some [(''x'', VFloat 1)]\<rparr> = Some [(''x'', VFloat 1)]"
  "add_one [(''x'', VFloat 1)] = Inr (VFloat 2)"
  "struct_fields (case VFloat 2 of VDict d \<Rightarrow> d | _ \<Rightarrow> [(''result'', VFloat 2)]) =
     Inr [(''result'', VFloat 2)]"
  "result_content = \<lparr>role = USER_ROLE, parts = [Part_function_response
        \<lparr>fr_name = fc_name \<lparr>fc_name = ''add_one'', args = Some [(''x'', VFloat 1)]\<rparr>,
         response = [(''result'', VFloat 2)]\<rparr>]\<rparr>"
  by (simp_all add: FunctionLibrary_getitem_def add_one_library_def add_one_declaration_def
      add_one_def result_content_def USER_ROLE_def)

lemma afc_world_run:
  "send_message plain_externals (PyStr ''add one to 1'') None None False None None afc_world =
     (Inr (from_response text_response),
      \<lparr>chat = (chat afc_world)\<lparr>priv_history := [question, answer, ask, call_content],
                       priv_last := Some (result_content, from_response text_response)\<rparr>,
       client = \<lparr>script = [],
                 requests =
                   [(\<lparr>rq_model = ''models/gemini-pro'',
                      rq_contents = [question, answer, ask],
                      rq_generation_config = [],
                      rq_safety_settings = VDict [],
                      rq_tools = Some (FunctionLibrary_to_proto add_one_library),
                      rq_tool_config = None,
                      rq_system_instructions = None\<rparr>, False),
                    (\<lparr>rq_model = ''models/gemini-pro'',
                      rq_contents = [question, answer, ask, call_content, result_content],
                      rq_generation_config = [],
                      rq_safety_settings = VDict [],
                      rq_tools = Some (FunctionLibrary_to_proto add_one_library),
                      rq_tool_config = None,
                      rq_system_instructions = None\<rparr>, False)]\<rparr>,
       calls = [(''add_one'', [(''x'', VFloat 1)])]\<rparr>)"
proof -
  have h: "priv_history (chat afc_world) = [question, answer]" "calls afc_world = []"
    "requests (client afc_world) = []"
    "model (chat afc_world) = demo_model\<lparr>priv_tools := Some add_one_library\<rparr>"
    by (simp_all add: afc_world_def)
  from afc_two_rounds[OF afc_world_facts call_response_facts text_response_facts add_one_facts refl]
  show ?thesis
    by (simp add: h demo_model_def dict_update_all_def)
qed

text \<open>
  C1 (as amended). A session with automatic function calling and a library \<open>lib\<close>,
  whose \<open>history\<close> can be read and is \<open>h0\<close> (an idle session, or one whose pending
  turn commits); the collaborator answers with a response whose single candidate holds
  exactly one function call \<open>fc\<close>, and then with a response without function calls.
  The call \<open>fc\<close> is not empty (it has a name or an argument) and carries an \<open>args\<close>
  mapping \<open>kw\<close>; it is bound in \<open>lib\<close> to a callable, which returns \<open>v\<close> for
  \<open>kw\<close>, and a \<open>Struct\<close> can store the response made of \<open>v\<close>. Then
  \<open>send_message\<close> returns the second response; the callable was invoked once, with
  \<open>kw\<close>; the collaborator received two requests, the second with the working history
  extended by the function-call content and one \<open>user\<close> content that holds the
  function response; the session is left with the message and the function-call
  content committed and the function-response content and the final response pending;
  and the read of \<open>history\<close> then commits that pair: it returns, and stores as the
  committed history, \<open>h0\<close> followed by the message, the function-call content, the
  function-response content and the final model content.
\<close>

theorem afc_round_trip:
  assumes "enable_automatic_function_calling (chat w)"
    and "history (chat w) = (Inr h0, s1)"
    and "get_tools_lib ext (model (chat w)) tools = Inr (Some lib)"
    and "to_content x = Inr c0"
    and "c = (if role c0 = [] then c0\<lparr>role := USER_ROLE\<rparr> else c0)"
    and "to_generation_config_dict ext gcin = Inr gc"
    and "candidate_count_exceeds gc = Inr False"
    and "to_generation_config_dict ext (Some gc) = Inr gc'"
    and "to_easy_safety_dict ext ssin = Inr sd"
    and "normalize_safety_settings ext
           (dict_update_all (priv_safety_settings (model (chat w))) sd) = Inr nss"
    and "merge_tool_config (model (chat w)) tcin = Inr tc0"
    and "script (client w) = Inr r1 # Inr r2 # rest"
    and "block_reason r1 = 0" and "candidates r1 = [cand1]" and "finish_ok (finish_reason cand1)"
    and "List.map_filter function_call_of (parts (c_content cand1)) = [fc]"
    and "function_call_bool fc"
    and "block_reason r2 = 0" and "candidates r2 = [cand2]" and "finish_ok (finish_reason cand2)"
    and "List.map_filter function_call_of (parts (c_content cand2)) = []"
    and "FunctionLibrary_getitem lib (Inr fc) = Inr (CallableFunctionDeclaration p f)"
    and "args fc = Some kw"
    and "f kw = Inr v"
    and "struct_fields (case v of VDict d \<Rightarrow> d | _ \<Rightarrow> [(''result'', v)]) = Inr resp"
    and "send = \<lparr>role = USER_ROLE,
        parts = [Part_function_response \<lparr>fr_name = fc_name fc, response = resp\<rparr>]\<rparr>"
  shows "\<exists>w' rqa rqb.
     send_message ext x gcin ssin False tools tcin w = (Inr (from_response r2), w') \<and>
     calls w' = calls w @ [(decl_name p, kw)] \<and>
     requests (client w') = requests (client w) @ [(rqa, False), (rqb, False)] \<and>
     rq_contents rqa = h0 @ [c] \<and>
     rq_contents rqb = h0 @ [c, c_content cand1, send] \<and>
     priv_history (chat w') = h0 @ [c, c_content cand1] \<and>
     priv_last (chat w') = Some (send, from_response r2) \<and>
     history (chat w') =
       (Inr (h0 @ [c, c_content cand1, send, with_model_role (c_content cand2)]),
        (chat w')\<lparr>priv_history :=
                     h0 @ [c, c_content cand1, send, with_model_role (c_content cand2)],
                   priv_last := None\<rparr>)"
proof -
  define rq where "rq = \<lparr>rq_model = priv_model_name (model (chat w)),
          rq_contents = [],
          rq_generation_config = dict_update_all (priv_generation_config (model (chat w))) gc',
          rq_safety_settings = nss,
          rq_tools = Some (FunctionLibrary_to_proto lib),
          rq_tool_config = tc0,
          rq_system_instructions = priv_system_instructions (model (chat w))\<rparr>"
  let ?w = "\<lparr>chat = s1\<lparr>priv_history := h0 @ [c, c_content cand1],
                       priv_last := Some (send, from_response r2)\<rparr>,
       client = \<lparr>script = rest,
                 requests = requests (client w) @
                   [(rq\<lparr>rq_contents := h0 @ [c]\<rparr>, False),
                    (rq\<lparr>rq_contents := h0 @ [c, c_content cand1, send],
                        rq_tool_config := priv_tool_config (model (chat w))\<rparr>, False)]\<rparr>,
       calls = calls w @ [(decl_name p, kw)]\<rparr>"
  have run: "send_message ext x gcin ssin False tools tcin w = (Inr (from_response r2), ?w)"
    using assms rq_def by (rule afc_two_rounds)
  have "history (chat ?w) =
       (Inr (h0 @ [c, c_content cand1, send, with_model_role (c_content cand2)]),
        (chat ?w)\<lparr>priv_history :=
                     h0 @ [c, c_content cand1, send, with_model_role (c_content cand2)],
                   priv_last := None\<rparr>)"
    using assms(19,20)
    by (simp add: history_def from_response_def r_candidates_def with_model_role_def Let_def)
  with run show ?thesis
    by (intro exI[of _ ?w] exI[of _ "rq\<lparr>rq_contents := h0 @ [c]\<rparr>"]
          exI[of _ "rq\<lparr>rq_contents := h0 @ [c, c_content cand1, send],
                        rq_tool_config := priv_tool_config (model (chat w))\<rparr>"]) simp
qed

theorem afc_round_trip_witness:
  "fst (send_message plain_externals (PyStr ''add one to 1'') None None False None None afc_world) =
     Inr (from_response text_response) \<and>
   calls (snd (send_message plain_externals (PyStr ''add one to 1'') None None False None None
                 afc_world)) = [(''add_one'', [(''x'', VFloat 1)])] \<and>
   length (requests (client (snd (send_message plain_externals (PyStr ''add one to 1'') None None
                 False None None afc_world)))) = 2 \<and>
   fst (history (chat (snd (send_message plain_externals (PyStr ''add one to 1'') None None
                 False None None afc_world)))) =
     Inr [question, answer, ask, call_content, result_content,
          \<lparr>role = ''model'', parts = [Part_text ''2'']\<rparr>] \<and>
   priv_history (snd (history (chat (snd (send_message plain_externals (PyStr ''add one to 1'')
                 None None False None None afc_world))))) =
     [question, answer, ask, call_content, result_content,
      \<lparr>role = ''model'', parts = [Part_text ''2'']\<rparr>]"
proof -
  have h: "priv_history (chat afc_world) = [question, answer]" "calls afc_world = []"
    "requests (client afc_world) = []"
    by (simp_all add: afc_world_def)
  from afc_round_trip[OF afc_world_facts call_response_facts text_response_facts add_one_facts]
  show ?thesis
    by (auto simp: h with_model_role_def MODEL_ROLE_def)
qed

text \<open>
  C1, the claim as stated, fails at two responses whose single candidate holds exactly
  one function call that matches a callable declaration of the library. When the
  declaration and the call both have the empty name and the call has no argument, the
  part that holds the call is false, \<open>_get_function_calls\<close> skips it, and
  \<open>send_message\<close> returns the first response after one request, the callable never
  invoked. When the \<open>args\<close> of a call to \<open>add_one\<close> was never set,
  \<open>send_message\<close> raises \<open>TypeError\<close> after one request, the callable never
  invoked.
\<close>

theorem afc_round_trip_counterexample:
  "FunctionLibrary_getitem (single_library [] add_one) (Inr \<lparr>fc_name = [], args = Some []\<rparr>) =
     Inr (CallableFunctionDeclaration
            \<lparr>decl_name = [], decl_description = [], decl_parameters = VNone\<rparr> add_one) \<and>
   send_message plain_externals (PyStr ''add one to 1'') None None False None None
       (afc_world_of (single_library [] add_one) \<lparr>fc_name = [], args = Some []\<rparr>) =
     (Inr (from_response (call_response_of \<lparr>fc_name = [], args = Some []\<rparr>)),
      \<lparr>chat = \<lparr>model = demo_model\<lparr>priv_tools := Some (single_library [] add_one)\<rparr>,
                priv_history = [question, answer],
                priv_last = Some (ask,
                  from_response (call_response_of \<lparr>fc_name = [], args = Some []\<rparr>)),
                enable_automatic_function_calling = True\<rparr>,
       client = \<lparr>script = [Inr text_response],
                 requests =
                   [(\<lparr>rq_model = ''models/gemini-pro'',
                      rq_contents = [question, answer, ask],
                      rq_generation_config = [],
                      rq_safety_settings = VDict [],
                      rq_tools = Some (FunctionLibrary_to_proto (single_library [] add_one)),
                      rq_tool_config = None,
                      rq_system_instructions = None\<rparr>, False)]\<rparr>,
       calls = []\<rparr>) \<and>
   FunctionLibrary_getitem add_one_library (Inr \<lparr>fc_name = ''add_one'', args = None\<rparr>) =
     Inr add_one_declaration \<and>
   fst (send_message plain_externals (PyStr ''add one to 1'') None None False None None
       (afc_world_of add_one_library \<lparr>fc_name = ''add_one'', args = None\<rparr>)) =
     Inl TypeError \<and>
   calls (snd (send_message plain_externals (PyStr ''add one to 1'') None None False None None
       (afc_world_of add_one_library \<lparr>fc_name = ''add_one'', args = None\<rparr>))) = [] \<and>
   length (requests (client (snd (send_message plain_externals (PyStr ''add one to 1'') None
       None False None None
       (afc_world_of add_one_library \<lparr>fc_name = ''add_one'', args = None\<rparr>))))) = 1"
  by (simp add: afc_world_of_def call_response_of_def single_library_def add_one_library_def
      add_one_declaration_def plain_declaration_def FunctionLibrary_getitem_def
      send_message_def get_tools_lib_def demo_model_def to_content_def
      history_def finish_ok_def from_response_def plain_externals_def candidate_count_exceeds_def
      generate_content_def prepare_request_def merge_tool_config_def to_contents_def
      to_function_library_def strict_to_content_def client_call_def check_response_def
      r_candidates_def text_response_def answer_def question_def ask_def USER_ROLE_def
      MODEL_ROLE_def Let_def handle_afc.simps get_function_calls_def function_calls_of_def
      List.map_filter_simps function_call_bool_def unpack_last_def butlast_append
      FunctionLibrary_call_def CallableFunctionDeclaration_call_def call_function_def
      log_call_def dict_update_all_def history_set_def)

theorem afc_continuation_requests_witness:
  "length (requests (client (snd (send_message plain_externals (PyStr ''add one to 1'') None None
             False None None afc_world)))) = 2 \<and>
   list_all
     (same_overrides_and_tools
        (hd (requests (client (snd (send_message plain_externals (PyStr ''add one to 1'') None
               None False None None afc_world))))))
     (tl (requests (client (snd (send_message plain_externals (PyStr ''add one to 1'') None None
             False None None afc_world)))))"
proof -
  let ?r = "send_message plain_externals (PyStr ''add one to 1'') None None False None None afc_world"
  have e: "requests (client afc_world) = []"
    by (simp add: afc_world_def)
  have "?r = (fst ?r, snd ?r)"
    by simp
  from afc_continuation_requests[OF this]
  have "list_all (same_overrides_and_tools (hd (requests (client (snd ?r)))))
      (tl (requests (client (snd ?r))))"
    by (auto simp: e)
  moreover have "length (requests (client (snd ?r))) = 2"
    by (simp add: afc_world_run)
  ultimately show ?thesis by simp
qed

text \<open>
  C2, the claim as stated, fails: the request of the continuation round carries the
  tool declarations, as the request of round 0 does.
\<close>

theorem afc_continuation_tools_counterexample:
  "request_tools (snd (send_message plain_externals (PyStr ''add one to 1'') None None False None
       None afc_world)) =
     [Some [[\<lparr>decl_name = ''add_one'', decl_description = [], decl_parameters = VNone\<rparr>,
             \<lparr>decl_name = ''g'', decl_description = [], decl_parameters = VNone\<rparr>]],
      Some [[\<lparr>decl_name = ''add_one'', decl_description = [], decl_parameters = VNone\<rparr>,
             \<lparr>decl_name = ''g'', decl_description = [], decl_parameters = VNone\<rparr>]]]"
  by (simp add: afc_world_run request_tools_def FunctionLibrary_to_proto_def Tool_to_proto_def
      add_one_library_def add_one_declaration_def plain_declaration_def)

lemma send_message_history:
  assumes "\<not> (enable_automatic_function_calling (chat w) \<and> stream)"
    and "get_tools_lib ext (model (chat w)) tools = Inr lib"
    and "to_content x = Inr c0"
  shows "history (chat w) = (Inl e, s') \<Longrightarrow>
           send_message ext x gcin ssin stream tools tcin w = (Inl e, w\<lparr>chat := s'\<rparr>)"
    and "history (chat w) = (Inr h, s') \<Longrightarrow>
           send_message ext x gcin ssin stream tools tcin w =
             send_message ext x gcin ssin stream tools tcin (w\<lparr>chat := s'\<rparr>) \<and>
           priv_last s' = None \<and> priv_history s' = h"
proof -
  let ?s = "chat w"
  have n: "(enable_automatic_function_calling ?s \<and> stream) = False"
    using assms(1) by simp
  note g = assms(2) and c = assms(3)
  show "send_message ext x gcin ssin stream tools tcin w = (Inl e, w\<lparr>chat := s'\<rparr>)"
    if "history (chat w) = (Inl e, s')"
    unfolding send_message_def Let_def n g c that by simp
  assume h: "history (chat w) = (Inr h, s')"
  have idle: "priv_last s' = None \<and> priv_history s' = h \<and> model s' = model ?s \<and>
      enable_automatic_function_calling s' = enable_automatic_function_calling ?s"
    using h
    by (auto simp: history_def Let_def split: option.splits prod.splits sum.splits list.splits
        if_splits)
  then have h': "history s' = (Inr h, s')"
    by (simp add: history_def)
  have m: "model s' = model ?s"
    "enable_automatic_function_calling s' = enable_automatic_function_calling ?s"
    "chat (w\<lparr>chat := s'\<rparr>) = s'" "w\<lparr>chat := s'\<rparr>\<lparr>chat := s'\<rparr> = w\<lparr>chat := s'\<rparr>"
    "client (w\<lparr>chat := s'\<rparr>) = client w" "calls (w\<lparr>chat := s'\<rparr>) = calls w"
    using idle by simp_all
  have "send_message ext x gcin ssin stream tools tcin w =
        send_message ext x gcin ssin stream tools tcin (w\<lparr>chat := s'\<rparr>)"
    unfolding send_message_def Let_def m n g c h h' if_False sum.case prod.case
    by (rule refl)
  then show "send_message ext x gcin ssin stream tools tcin w =
             send_message ext x gcin ssin stream tools tcin (w\<lparr>chat := s'\<rparr>) \<and>
           priv_last s' = None \<and> priv_history s' = h"
    using idle by simp
qed

text \<open>
  C9 (as amended). \<open>send_message\<close> with automatic function calling and streaming
  raises \<open>NotImplementedError\<close> and leaves everything as it was. Otherwise, once the
  tool library and the message are converted, it reads \<open>history\<close>, whatever the state
  of the session. If that read raises, the call raises the same error and the session
  is as the read left it; if it returns, the session it leaves is idle and the call
  does what it does from that idle session. For a session with a pending turn the read
  raises \<open>IncompleteIterationError\<close> when the pending response is a stream not yet
  consumed, \<open>IndexError\<close> when it has no candidate, and \<open>BrokenResponseError\<close> when
  its first candidate finished abnormally or an error is stored in it; in every other
  case it returns the committed history extended by the pending pair.
\<close>

theorem send_message_states:
  "(enable_automatic_function_calling (chat w) \<and> stream \<longrightarrow>
      send_message ext x gcin ssin stream tools tcin w = (Inl NotImplementedError, w)) \<and>
   (\<not> (enable_automatic_function_calling (chat w) \<and> stream) \<and>
    get_tools_lib ext (model (chat w)) tools = Inr lib \<and> to_content x = Inr c0 \<longrightarrow>
      (case history (chat w) of
         (Inl e, s') \<Rightarrow>
           send_message ext x gcin ssin stream tools tcin w = (Inl e, w\<lparr>chat := s'\<rparr>)
       | (Inr h, s') \<Rightarrow>
           send_message ext x gcin ssin stream tools tcin w =
             send_message ext x gcin ssin stream tools tcin (w\<lparr>chat := s'\<rparr>) \<and>
           priv_last s' = None \<and> priv_history s' = h)) \<and>
   (priv_last (chat w) = Some (snt, r) \<longrightarrow>
      fst (history (chat w)) =
        (if \<not> r_done r then Inl IncompleteIterationError
         else case candidates (r_result r) of
           [] \<Rightarrow> Inl IndexError
         | cand # cs \<Rightarrow>
             if finish_ok (finish_reason cand) \<and> r_error r = None
             then Inr (priv_history (chat w) @ [snt, with_model_role (c_content cand)])
             else Inl BrokenResponseError))"
proof (intro conjI impI)
  assume "enable_automatic_function_calling (chat w) \<and> stream"
  then show "send_message ext x gcin ssin stream tools tcin w = (Inl NotImplementedError, w)"
    by (simp add: send_message_def)
next
  assume a: "\<not> (enable_automatic_function_calling (chat w) \<and> stream) \<and>
    get_tools_lib ext (model (chat w)) tools = Inr lib \<and> to_content x = Inr c0"
  obtain hr s' where h: "history (chat w) = (hr, s')"
    by (cases "history (chat w)")
  show "case history (chat w) of
         (Inl e, s') \<Rightarrow>
           send_message ext x gcin ssin stream tools tcin w = (Inl e, w\<lparr>chat := s'\<rparr>)
       | (Inr h, s') \<Rightarrow>
           send_message ext x gcin ssin stream tools tcin w =
             send_message ext x gcin ssin stream tools tcin (w\<lparr>chat := s'\<rparr>) \<and>
           priv_last s' = None \<and> priv_history s' = h"
  proof (cases hr)
    case (Inl e)
    then show ?thesis
      using h send_message_history(1)[of w stream ext tools lib x c0 e s' gcin ssin tcin] a
      by simp
  next
    case (Inr hh)
    then show ?thesis
      using h send_message_history(2)[of w stream ext tools lib x c0 hh s' gcin ssin tcin] a
      by simp
  qed
next
  assume "priv_last (chat w) = Some (snt, r)"
  then show "fst (history (chat w)) =
        (if \<not> r_done r then Inl IncompleteIterationError
         else case candidates (r_result r) of
           [] \<Rightarrow> Inl IndexError
         | cand # cs \<Rightarrow>
             if finish_ok (finish_reason cand) \<and> r_error r = None
             then Inr (priv_history (chat w) @ [snt, with_model_role (c_content cand)])
             else Inl BrokenResponseError)"
    by (simp add: history_def r_candidates_def Let_def with_model_role_def split: list.splits)
qed

theorem send_message_states_witness:
  "send_message plain_externals (PyStr ''again'') None None True None None afc_world =
     (Inl NotImplementedError, afc_world) \<and>
   send_message plain_externals (PyStr ''again'') None None False None None pending_world =
     send_message plain_externals (PyStr ''again'') None None False None None
       (pending_world\<lparr>chat := snd (history (chat pending_world))\<rparr>) \<and>
   priv_last (snd (history (chat pending_world))) = None \<and>
   priv_history (snd (history (chat pending_world))) = [question, answer] \<and>
   send_message plain_externals (PyStr ''again'') None None False None None streaming_world =
     (Inl IncompleteIterationError, streaming_world) \<and>
   fst (send_message plain_externals (PyStr ''again'') None None False None None
          (streaming_world\<lparr>chat := resolve_last (chat streaming_world)\<rparr>)) =
     Inr (from_response text_response) \<and>
   send_message plain_externals (PyStr ''again'') None None False None None no_candidate_world =
     (Inl IndexError, no_candidate_world) \<and>
   fst (send_message plain_externals (PyStr ''again'') None None False None None
          \<lparr>chat = broken_session, client = \<lparr>script = [], requests = []\<rparr>, calls = []\<rparr>) =
     Inl BrokenResponseError"
proof -
  let ?bw = "\<lparr>chat = broken_session, client = \<lparr>script = [], requests = []\<rparr>, calls = []\<rparr>"
  let ?x = "PyStr ''again''"
  let ?c = "\<lparr>role = [], parts = [Part_text ''again'']\<rparr>"
  have 1: "enable_automatic_function_calling (chat afc_world) \<and> True"
    by (simp add: afc_world_def)
  have 2: "\<not> (enable_automatic_function_calling (chat w) \<and> False) \<and>
      get_tools_lib plain_externals (model (chat w)) None = Inr None \<and> to_content ?x = Inr ?c"
    if "w \<in> {pending_world, streaming_world, no_candidate_world, ?bw}" for w
    using that
    by (auto simp: pending_world_def streaming_world_def no_candidate_world_def
        broken_session_def get_tools_lib_def demo_model_def to_content_def)
  have hp: "history (chat pending_world) =
      (Inr [question, answer],
       (chat pending_world)\<lparr>priv_history := [question, answer], priv_last := None\<rparr>)"
    by (simp add: pending_world_def history_def from_response_def r_candidates_def finish_ok_def
        answer_def MODEL_ROLE_def Let_def)
  have hs: "history (chat streaming_world) = (Inl IncompleteIterationError, chat streaming_world)"
    by (simp add: streaming_world_def history_def from_iterator_def r_candidates_def)
  have hn: "history (chat no_candidate_world) = (Inl IndexError, chat no_candidate_world)"
    by (simp add: no_candidate_world_def history_def from_response_def r_candidates_def)
  have hb: "history (chat ?bw) =
      (Inl BrokenResponseError,
       broken_session\<lparr>priv_last :=
         Some (\<lparr>role = ''user'', parts = [Part_text ''more'']\<rparr>,
               stopped_response\<lparr>r_error := Some StopCandidateException\<rparr>)\<rparr>)"
    by (simp add: broken_session_def stopped_response_def history_def from_response_def
        r_candidates_def finish_ok_def Let_def)
  have e: "w\<lparr>chat := chat w\<rparr> = w" for w :: world
    by simp
  have rs: "fst (send_message plain_externals ?x None None False None None
          (streaming_world\<lparr>chat := resolve_last (chat streaming_world)\<rparr>)) =
     Inr (from_response text_response)"
    by (simp add: streaming_world_def resolve_last_def resolve_def from_iterator_def
        send_message_def get_tools_lib_def demo_model_def to_content_def history_def finish_ok_def
        from_response_def plain_externals_def candidate_count_exceeds_def generate_content_def
        prepare_request_def merge_tool_config_def to_contents_def strict_to_content_def
        client_call_def check_response_def text_response_def answer_def question_def
        USER_ROLE_def MODEL_ROLE_def Let_def r_candidates_def)
  show ?thesis
    using send_message_states[of afc_world True plain_externals ?x None None None None]
      send_message_states[of pending_world False plain_externals ?x None None None None None ?c]
      send_message_states[of streaming_world False plain_externals ?x None None None None None ?c]
      send_message_states[of no_candidate_world False plain_externals ?x None None None None
        None ?c]
      send_message_states[of ?bw False plain_externals ?x None None None None None ?c]
      1 2[of pending_world] 2[of streaming_world] 2[of no_candidate_world] 2[of ?bw]
      hp hs hn hb rs
    by (auto simp: e split: prod.splits sum.splits)
qed

text \<open>
  C9, the claim as stated, fails: with a pending turn, \<open>send_message\<close> returns the
  next response.
\<close>

theorem send_message_pending_counterexample:
  "priv_last (chat pending_world) \<noteq> None \<and>
   fst (send_message plain_externals (PyStr ''again'') None None False None None pending_world) =
     Inr (from_response text_response)"
  by (simp add: pending_world_def send_message_def get_tools_lib_def demo_model_def to_content_def
      history_def finish_ok_def from_response_def plain_externals_def candidate_count_exceeds_def
      generate_content_def prepare_request_def merge_tool_config_def to_contents_def
      strict_to_content_def client_call_def check_response_def text_response_def answer_def
      question_def USER_ROLE_def MODEL_ROLE_def Let_def r_candidates_def)

end
